theory Spec2Isabelle
  imports Complex_Main "HOL-Library.Word" "HOL-Library.Multiset" "HOL-Library.Sublist"
begin

unbundle bit_operations_syntax

section \<open>Python values, strings and exceptions\<close>

text \<open>
  The translator of \<^verbatim>\<open>app.py\<close> and the cache of \<^verbatim>\<open>cache.py\<close> are embedded as
  functions over an explicit world (file system and clock). A Python \<^verbatim>\<open>str\<close> is
  modelled by the \<^typ>\<open>string\<close> of the bytes of its UTF-8 encoding; a surrogate code
  point, which has no UTF-8 encoding, stands in it as the three bytes ED, A0..BF,
  80..BF that the \<^verbatim>\<open>surrogatepass\<close> handler writes for it. \<^verbatim>\<open>str.lower\<close>,
  \<^verbatim>\<open>str.upper\<close>, \<^verbatim>\<open>str.isalnum\<close> and \<^verbatim>\<open>str.split\<close> are given on ASCII: a byte above 127
  is left alone and counts as neither alphanumeric nor white space.
\<close>

definition isspace_char :: "char \<Rightarrow> bool" where
  "isspace_char c =
     (let n = (of_char c :: nat) in (9 \<le> n \<and> n \<le> 13) \<or> (28 \<le> n \<and> n \<le> 32))"

definition isalnum_char :: "char \<Rightarrow> bool" where
  "isalnum_char c =
     (let n = (of_char c :: nat)
      in (48 \<le> n \<and> n \<le> 57) \<or> (65 \<le> n \<and> n \<le> 90) \<or> (97 \<le> n \<and> n \<le> 122))"

definition upper_char :: "char \<Rightarrow> char" where
  "upper_char c =
     (let n = (of_char c :: nat) in if 97 \<le> n \<and> n \<le> 122 then char_of (n - 32) else c)"

definition lower_char :: "char \<Rightarrow> char" where
  "lower_char c =
     (let n = (of_char c :: nat) in if 65 \<le> n \<and> n \<le> 90 then char_of (n + 32) else c)"

definition str_upper :: "string \<Rightarrow> string" where
  "str_upper s = map upper_char s"

definition str_lower :: "string \<Rightarrow> string" where
  "str_lower s = map lower_char s"

text \<open>\<^verbatim>\<open>s.isalnum()\<close>: every character is alphanumeric and there is at least one.\<close>

definition isalnum :: "string \<Rightarrow> bool" where
  "isalnum s = (s \<noteq> [] \<and> list_all isalnum_char s)"

definition startswith :: "string \<Rightarrow> string \<Rightarrow> bool" where
  "startswith s p = (take (length p) s = p)"

definition endswith :: "string \<Rightarrow> string \<Rightarrow> bool" where
  "endswith s p = (length p \<le> length s \<and> drop (length s - length p) s = p)"

text \<open>\<^verbatim>\<open>sep.join(xs)\<close>.\<close>

fun str_join :: "string \<Rightarrow> string list \<Rightarrow> string" where
  "str_join sep [] = []"
| "str_join sep [x] = x"
| "str_join sep (x # y # ys) = x @ sep @ str_join sep (y # ys)"

text \<open>
  \<^verbatim>\<open>s.split()\<close> with no separator: the maximal runs of characters that are not white
  space, in order; \<open>cur\<close> is the run being read.
\<close>

fun split_ws :: "string \<Rightarrow> string \<Rightarrow> string list" where
  "split_ws cur [] = (if cur = [] then [] else [cur])"
| "split_ws cur (c # cs) =
     (if isspace_char c
      then (if cur = [] then split_ws [] cs else cur # split_ws [] cs)
      else split_ws (cur @ [c]) cs)"

definition str_split :: "string \<Rightarrow> string list" where
  "str_split s = split_ws [] s"

text \<open>
  \<^verbatim>\<open>s.replace(old, new)\<close>: every occurrence of \<open>old\<close>, found from the left and not
  overlapping, becomes \<open>new\<close>; an empty \<open>old\<close> matches before every character and at
  the end.
\<close>

function replace_from :: "string \<Rightarrow> string \<Rightarrow> string \<Rightarrow> string" where
  "replace_from old new s =
     (if s = [] \<or> old = [] then s
      else if take (length old) s = old then new @ replace_from old new (drop (length old) s)
      else hd s # replace_from old new (tl s))"
  by pat_completeness auto
termination
  by (relation "measure (\<lambda>(old, new, s). length s)") auto

declare replace_from.simps [simp del]

definition str_replace :: "string \<Rightarrow> string \<Rightarrow> string \<Rightarrow> string" where
  "str_replace s old new =
     (if old = [] then new @ concat (map (\<lambda>c. c # new) s) else replace_from old new s)"

text \<open>\<^verbatim>\<open>str(n)\<close> of an integer: its decimal digits, with a minus sign below zero.\<close>

definition digit_char :: "nat \<Rightarrow> char" where
  "digit_char d = char_of (48 + d)"

function digits_nat :: "nat \<Rightarrow> string" where
  "digits_nat n = (if n < 10 then [digit_char n] else digits_nat (n div 10) @ [digit_char (n mod 10)])"
  by pat_completeness auto
termination
  by (relation "measure (\<lambda>n. n)") auto

declare digits_nat.simps [simp del]

definition str_int :: "int \<Rightarrow> string" where
  "str_int i = (if i < 0 then CHR ''-'' # digits_nat (nat (- i)) else digits_nat (nat i))"

text \<open>\<^verbatim>\<open>int(x)\<close> of a float: the fraction is cut off, towards zero.\<close>

definition py_int :: "real \<Rightarrow> int" where
  "py_int x = (if 0 \<le> x then \<lfloor>x\<rfloor> else \<lceil>x\<rceil>)"

text \<open>\<^verbatim>\<open>os.path.join(a, b)\<close> on POSIX, for two components.\<close>

definition os_path_join :: "string \<Rightarrow> string \<Rightarrow> string" where
  "os_path_join a b =
     (if startswith b ''/'' then b
      else if a = [] \<or> endswith a ''/'' then a @ b
      else a @ ''/'' @ b)"

text \<open>
  The values the program builds, pickles and returns: \<^verbatim>\<open>None\<close>, booleans, integers,
  floats (as reals: the clock values the program subtracts lie in one binade, where
  the float difference is exact), strings, and dictionaries with string keys in
  insertion order.
\<close>

datatype pyval =
    PNone
  | PBool bool
  | PInt int
  | PFloat real
  | PStr string
  | PDict "(string \<times> pyval) list"

datatype exn =
    ValueError string
  | KeyError string
  | TypeError string
  | AttributeError string
  | OSError string
  | UnpicklingError string
  | LookupError string
  | UnicodeEncodeError string

text \<open>\<^verbatim>\<open>str(e)\<close>: the message; a \<^verbatim>\<open>KeyError\<close> prints its key quoted.\<close>

fun str_exn :: "exn \<Rightarrow> string" where
  "str_exn (ValueError m) = m"
| "str_exn (KeyError k) = [CHR 0x27] @ k @ [CHR 0x27]"
| "str_exn (TypeError m) = m"
| "str_exn (AttributeError m) = m"
| "str_exn (OSError m) = m"
| "str_exn (UnpicklingError m) = m"
| "str_exn (LookupError m) = m"
| "str_exn (UnicodeEncodeError m) = m"

text \<open>The truth value of a Python object, as \<^verbatim>\<open>if x:\<close> tests it.\<close>

fun truthy :: "pyval \<Rightarrow> bool" where
  "truthy PNone = False"
| "truthy (PBool b) = b"
| "truthy (PInt i) = (i \<noteq> 0)"
| "truthy (PFloat x) = (x \<noteq> 0)"
| "truthy (PStr s) = (s \<noteq> [])"
| "truthy (PDict d) = (d \<noteq> [])"

text \<open>\<^verbatim>\<open>d.get(k)\<close> of a dictionary: \<^verbatim>\<open>None\<close> for a missing key.\<close>

definition dict_get :: "(string \<times> pyval) list \<Rightarrow> string \<Rightarrow> pyval" where
  "dict_get d k = (case map_of d k of None \<Rightarrow> PNone | Some v \<Rightarrow> v)"

text \<open>\<^verbatim>\<open>x.get(k)\<close> of any object: only a dictionary has the method.\<close>

fun py_get :: "pyval \<Rightarrow> string \<Rightarrow> exn + pyval" where
  "py_get (PDict d) k = Inr (dict_get d k)"
| "py_get _ k = Inl (AttributeError ''object has no attribute get'')"

text \<open>\<^verbatim>\<open>x[k]\<close> with a string key.\<close>

fun py_getitem :: "pyval \<Rightarrow> string \<Rightarrow> exn + pyval" where
  "py_getitem (PDict d) k = (case map_of d k of None \<Rightarrow> Inl (KeyError k) | Some v \<Rightarrow> Inr v)"
| "py_getitem (PStr s) k = Inl (TypeError ''string indices must be integers'')"
| "py_getitem _ k = Inl (TypeError ''object is not subscriptable'')"

text \<open>The number a value stands for in arithmetic (\<^verbatim>\<open>True\<close> is 1), if it is one.\<close>

fun py_num :: "pyval \<Rightarrow> real option" where
  "py_num (PFloat x) = Some x"
| "py_num (PInt i) = Some (of_int i)"
| "py_num (PBool b) = Some (if b then 1 else 0)"
| "py_num _ = None"

text \<open>\<^verbatim>\<open>now - v\<close> for a float \<open>now\<close>.\<close>

definition py_sub :: "real \<Rightarrow> pyval \<Rightarrow> exn + real" where
  "py_sub now v =
     (case py_num v of
        None \<Rightarrow> Inl (TypeError ''unsupported operand type(s) for -'')
      | Some x \<Rightarrow> Inr (now - x))"

section \<open>The world: files and the clock\<close>

text \<open>
  A file holds text or a pickled value. \<open>denied\<close> are the paths on which \<^verbatim>\<open>open\<close>
  raises \<^verbatim>\<open>OSError\<close> (no permission, no directory, no space). \<open>clock n\<close> is what the
  \<open>n\<close>-th call of \<^verbatim>\<open>time.time()\<close> returns and \<open>ticks\<close> counts the calls made.
\<close>

datatype file_content = Bytes string | Pickle pyval

record world =
  files :: "string \<Rightarrow> file_content option"
  denied :: "string set"
  clock :: "nat \<Rightarrow> real"
  ticks :: nat

definition time_time :: "world \<Rightarrow> real \<times> world" where
  "time_time w = (clock w (ticks w), w\<lparr>ticks := Suc (ticks w)\<rparr>)"

definition os_path_exists :: "world \<Rightarrow> string \<Rightarrow> bool" where
  "os_path_exists w p = (files w p \<noteq> None)"

text \<open>\<^verbatim>\<open>open(p, 'rb')\<close> and reading the whole file.\<close>

definition open_read :: "world \<Rightarrow> string \<Rightarrow> exn + file_content" where
  "open_read w p =
     (if p \<in> denied w then Inl (OSError ''Permission denied'')
      else case files w p of
             None \<Rightarrow> Inl (OSError ''No such file or directory'')
           | Some c \<Rightarrow> Inr c)"

text \<open>\<^verbatim>\<open>open(p, 'w')\<close> or \<^verbatim>\<open>open(p, 'wb')\<close> and writing the content.\<close>

definition open_write :: "world \<Rightarrow> string \<Rightarrow> file_content \<Rightarrow> exn + world" where
  "open_write w p c =
     (if p \<in> denied w then Inl (OSError ''Permission denied'')
      else Inr (w\<lparr>files := (files w)(p \<mapsto> c)\<rparr>))"

text \<open>\<^verbatim>\<open>pickle.load\<close>: the pickled value, or an error on anything else.\<close>

fun pickle_load :: "file_content \<Rightarrow> exn + pyval" where
  "pickle_load (Pickle v) = Inr v"
| "pickle_load (Bytes s) = Inl (UnpicklingError ''invalid load key'')"

section \<open>MD5, as \<^verbatim>\<open>hashlib.md5\<close> computes it\<close>

text \<open>
  The digest of RFC 1321 on bytes: the message is padded to whole blocks of 64 bytes,
  every block runs 64 steps over four 32-bit registers, and the registers are written
  out in little-endian order.
\<close>

type_synonym byte = "8 word"
type_synonym u32 = "32 word"
type_synonym md5_state = "u32 \<times> u32 \<times> u32 \<times> u32"

definition md5_K :: "u32 list" where
  "md5_K = [
    0xd76aa478, 0xe8c7b756, 0x242070db, 0xc1bdceee, 0xf57c0faf, 0x4787c62a, 0xa8304613, 0xfd469501,
    0x698098d8, 0x8b44f7af, 0xffff5bb1, 0x895cd7be, 0x6b901122, 0xfd987193, 0xa679438e, 0x49b40821,
    0xf61e2562, 0xc040b340, 0x265e5a51, 0xe9b6c7aa, 0xd62f105d, 0x02441453, 0xd8a1e681, 0xe7d3fbc8,
    0x21e1cde6, 0xc33707d6, 0xf4d50d87, 0x455a14ed, 0xa9e3e905, 0xfcefa3f8, 0x676f02d9, 0x8d2a4c8a,
    0xfffa3942, 0x8771f681, 0x6d9d6122, 0xfde5380c, 0xa4beea44, 0x4bdecfa9, 0xf6bb4b60, 0xbebfbc70,
    0x289b7ec6, 0xeaa127fa, 0xd4ef3085, 0x04881d05, 0xd9d4d039, 0xe6db99e5, 0x1fa27cf8, 0xc4ac5665,
    0xf4292244, 0x432aff97, 0xab9423a7, 0xfc93a039, 0x655b59c3, 0x8f0ccc92, 0xffeff47d, 0x85845dd1,
    0x6fa87e4f, 0xfe2ce6e0, 0xa3014314, 0x4e0811a1, 0xf7537e82, 0xbd3af235, 0x2ad7d2bb, 0xeb86d391]"

definition md5_s :: "nat list" where
  "md5_s = [
    7, 12, 17, 22, 7, 12, 17, 22, 7, 12, 17, 22, 7, 12, 17, 22,
    5, 9, 14, 20, 5, 9, 14, 20, 5, 9, 14, 20, 5, 9, 14, 20,
    4, 11, 16, 23, 4, 11, 16, 23, 4, 11, 16, 23, 4, 11, 16, 23,
    6, 10, 15, 21, 6, 10, 15, 21, 6, 10, 15, 21, 6, 10, 15, 21]"

definition rotl32 :: "u32 \<Rightarrow> nat \<Rightarrow> u32" where
  "rotl32 x n = push_bit n x OR drop_bit (32 - n) x"

definition md5_F :: "nat \<Rightarrow> u32 \<Rightarrow> u32 \<Rightarrow> u32 \<Rightarrow> u32" where
  "md5_F i b c d =
     (if i < 16 then (b AND c) OR (NOT b AND d)
      else if i < 32 then (d AND b) OR (NOT d AND c)
      else if i < 48 then b XOR c XOR d
      else c XOR (b OR NOT d))"

definition md5_g :: "nat \<Rightarrow> nat" where
  "md5_g i =
     (if i < 16 then i
      else if i < 32 then (5 * i + 1) mod 16
      else if i < 48 then (3 * i + 5) mod 16
      else (7 * i) mod 16)"

fun md5_step :: "u32 list \<Rightarrow> nat \<Rightarrow> md5_state \<Rightarrow> md5_state" where
  "md5_step m i (a, b, c, d) =
     (d, b + rotl32 (md5_F i b c d + a + md5_K ! i + m ! md5_g i) (md5_s ! i), b, c)"

function md5_rounds :: "u32 list \<Rightarrow> nat \<Rightarrow> md5_state \<Rightarrow> md5_state" where
  "md5_rounds m i st = (if i < 64 then md5_rounds m (i + 1) (md5_step m i st) else st)"
  by pat_completeness auto
termination
  by (relation "measure (\<lambda>(m, i, st). 64 - i)") auto

declare md5_rounds.simps [simp del]

text \<open>The sixteen little-endian words of a block.\<close>

fun le_words :: "byte list \<Rightarrow> u32 list" where
  "le_words (b0 # b1 # b2 # b3 # bs) =
     (ucast b0 OR push_bit 8 (ucast b1) OR push_bit 16 (ucast b2) OR push_bit 24 (ucast b3))
       # le_words bs"
| "le_words _ = []"

definition md5_block :: "md5_state \<Rightarrow> byte list \<Rightarrow> md5_state" where
  "md5_block h blk =
     (case h of (a0, b0, c0, d0) \<Rightarrow>
        (case md5_rounds (le_words blk) 0 h of
           (a, b, c, d) \<Rightarrow> (a0 + a, b0 + b, c0 + c, d0 + d)))"

function md5_blocks :: "md5_state \<Rightarrow> byte list \<Rightarrow> md5_state" where
  "md5_blocks h bs =
     (if length bs < 64 then h else md5_blocks (md5_block h (take 64 bs)) (drop 64 bs))"
  by pat_completeness auto
termination
  by (relation "measure (\<lambda>(h, bs). length bs)") auto

declare md5_blocks.simps [simp del]

definition le32_bytes :: "u32 \<Rightarrow> byte list" where
  "le32_bytes w = [ucast w, ucast (drop_bit 8 w), ucast (drop_bit 16 w), ucast (drop_bit 24 w)]"

definition le64_bytes :: "64 word \<Rightarrow> byte list" where
  "le64_bytes w =
     [ucast w, ucast (drop_bit 8 w), ucast (drop_bit 16 w), ucast (drop_bit 24 w),
      ucast (drop_bit 32 w), ucast (drop_bit 40 w), ucast (drop_bit 48 w), ucast (drop_bit 56 w)]"

definition md5_pad :: "byte list \<Rightarrow> byte list" where
  "md5_pad msg =
     msg @ [0x80] @ replicate ((119 - length msg mod 64) mod 64) 0
         @ le64_bytes (word_of_nat (8 * length msg))"

definition md5_init :: md5_state where
  "md5_init = (0x67452301, 0xefcdab89, 0x98badcfe, 0x10325476)"

definition md5 :: "byte list \<Rightarrow> byte list" where
  "md5 msg =
     (case md5_blocks md5_init (md5_pad msg) of
        (a, b, c, d) \<Rightarrow> le32_bytes a @ le32_bytes b @ le32_bytes c @ le32_bytes d)"

definition hex_digit :: "nat \<Rightarrow> char" where
  "hex_digit n = ''0123456789abcdef'' ! n"

text \<open>\<^verbatim>\<open>.hexdigest()\<close>: two lower-case hexadecimal digits for every byte.\<close>

definition hexdigest :: "byte list \<Rightarrow> string" where
  "hexdigest bs = concat (map (\<lambda>b. [hex_digit (unat b div 16), hex_digit (unat b mod 16)]) bs)"

text \<open>
  Whether the text holds a surrogate code point: in the bytes of a text the byte ED
  is followed by a byte from A0 to BF in a surrogate only.
\<close>

fun has_surrogate :: "string \<Rightarrow> bool" where
  "has_surrogate (c # d # cs) =
     (((of_char c :: nat) = 0xED \<and> 0xA0 \<le> (of_char d :: nat) \<and> (of_char d :: nat) \<le> 0xBF)
      \<or> has_surrogate (d # cs))"
| "has_surrogate cs = False"

text \<open>
  \<^verbatim>\<open>s.encode('utf-8')\<close>: the bytes of the text, one for every \<^typ>\<open>char\<close> of the model;
  a text with a surrogate raises \<^verbatim>\<open>UnicodeEncodeError\<close>.
\<close>

definition encode_utf8 :: "string \<Rightarrow> exn + byte list" where
  "encode_utf8 s =
     (if has_surrogate s then Inl (UnicodeEncodeError ''surrogates not allowed'')
      else Inr (map (\<lambda>c. word_of_nat (of_char c)) s))"

section \<open>\<^verbatim>\<open>cache.py\<close>: the translation cache\<close>

record TranslationCache =
  cache_dir :: string

text \<open>
  \<^verbatim>\<open>TranslationCache.get_cache_key\<close>: the MD5 of \<^verbatim>\<open>f"{text}_{language}"\<close>; the
  exception of \<^verbatim>\<open>.encode('utf-8')\<close> leaves the method.
\<close>

definition get_cache_key :: "string \<Rightarrow> string \<Rightarrow> exn + string" where
  "get_cache_key text language =
     (case encode_utf8 (text @ ''_'' @ language) of
        Inl e \<Rightarrow> Inl e
      | Inr content \<Rightarrow> Inr (hexdigest (md5 content)))"

text \<open>
  The first two statements of \<^verbatim>\<open>get\<close> and of \<^verbatim>\<open>set\<close>: the key, and the path of the
  cache file made from it. Both stand before the \<^verbatim>\<open>try\<close>, so an exception of
  \<^verbatim>\<open>get_cache_key\<close> is not caught.
\<close>

definition cache_file :: "TranslationCache \<Rightarrow> string \<Rightarrow> string \<Rightarrow> exn + string" where
  "cache_file self text language =
     (case get_cache_key text language of
        Inl e \<Rightarrow> Inl e
      | Inr cache_key \<Rightarrow> Inr (os_path_join (cache_dir self) (cache_key @ ''.pkl'')))"

text \<open>
  The body of the \<^verbatim>\<open>try\<close> of \<^verbatim>\<open>TranslationCache.get\<close>: \<open>Inl e\<close> when a statement raises
  \<open>e\<close>, \<open>Inr (Some r)\<close> when \<^verbatim>\<open>return cached_data['result']\<close> is reached and
  \<open>Inr None\<close> when the block ends without returning. The clock is read before the
  timestamp is looked up, as the subtraction evaluates its left operand first.
\<close>

definition get_try :: "world \<Rightarrow> string \<Rightarrow> (exn + pyval option) \<times> world" where
  "get_try w path =
     (case open_read w path of
        Inl e \<Rightarrow> (Inl e, w)
      | Inr content \<Rightarrow>
          (case pickle_load content of
             Inl e \<Rightarrow> (Inl e, w)
           | Inr cached_data \<Rightarrow>
               (case time_time w of
                  (now, w1) \<Rightarrow>
                    (case py_getitem cached_data ''timestamp'' of
                       Inl e \<Rightarrow> (Inl e, w1)
                     | Inr ts \<Rightarrow>
                         (case py_sub now ts of
                            Inl e \<Rightarrow> (Inl e, w1)
                          | Inr age \<Rightarrow>
                              if age < 86400
                              then (case py_getitem cached_data ''result'' of
                                      Inl e \<Rightarrow> (Inl e, w1)
                                    | Inr r \<Rightarrow> (Inr (Some r), w1))
                              else (Inr None, w1))))))"

text \<open>
  \<^verbatim>\<open>TranslationCache.get\<close>: an exception of the key computation leaves the method;
  after it, \<^verbatim>\<open>except Exception: pass\<close> swallows whatever the block raised, and every
  path but the \<^verbatim>\<open>return\<close> inside it ends in \<^verbatim>\<open>return None\<close>.
\<close>

definition TranslationCache_get ::
  "TranslationCache \<Rightarrow> world \<Rightarrow> string \<Rightarrow> string \<Rightarrow> (exn + pyval) \<times> world" where
  "TranslationCache_get self w text language =
     (case cache_file self text language of
        Inl e \<Rightarrow> (Inl e, w)
      | Inr path \<Rightarrow>
          if os_path_exists w path
          then (case get_try w path of
                  (Inr (Some r), w1) \<Rightarrow> (Inr r, w1)
                | (Inr None, w1) \<Rightarrow> (Inr PNone, w1)
                | (Inl e, w1) \<Rightarrow> (Inr PNone, w1))
          else (Inr PNone, w))"

text \<open>
  \<^verbatim>\<open>TranslationCache.set\<close>: an exception of the key computation leaves the method;
  after it, the entry is built with the time of the call, then written, and a failing
  \<^verbatim>\<open>open\<close> is swallowed and leaves the files as they were.
\<close>

definition TranslationCache_set ::
  "TranslationCache \<Rightarrow> world \<Rightarrow> string \<Rightarrow> string \<Rightarrow> pyval \<Rightarrow> (exn + pyval) \<times> world" where
  "TranslationCache_set self w text language result =
     (case cache_file self text language of
        Inl e \<Rightarrow> (Inl e, w)
      | Inr path \<Rightarrow>
          (case time_time w of
             (now, w1) \<Rightarrow>
               (let cache_data = PDict [(''result'', result), (''timestamp'', PFloat now)] in
                case open_write w1 path (Pickle cache_data) of
                  Inl e \<Rightarrow> (Inr PNone, w1)
                | Inr w2 \<Rightarrow> (Inr PNone, w2))))"

text \<open>
  \<^verbatim>\<open>cached_translation(cache_instance)(func)\<close>: the wrapper the decorator returns.
  An exception of \<open>func\<close>, or of \<^verbatim>\<open>result.get\<close> on a result that is no dictionary,
  leaves the wrapper as it is.
\<close>

definition cached_translation ::
  "TranslationCache \<Rightarrow> (world \<Rightarrow> string \<Rightarrow> string \<Rightarrow> (exn + pyval) \<times> world)
     \<Rightarrow> world \<Rightarrow> string \<Rightarrow> string \<Rightarrow> (exn + pyval) \<times> world" where
  "cached_translation cache_instance func w text language =
     (case TranslationCache_get cache_instance w text language of
        (Inl e, w1) \<Rightarrow> (Inl e, w1)
      | (Inr cached_result, w1) \<Rightarrow>
          if truthy cached_result then (Inr cached_result, w1)
          else (case func w1 text language of
                  (Inl e, w2) \<Rightarrow> (Inl e, w2)
                | (Inr result, w2) \<Rightarrow>
                    (case py_get result ''success'' of
                       Inl e \<Rightarrow> (Inl e, w2)
                     | Inr success \<Rightarrow>
                         if truthy success
                         then (case TranslationCache_set cache_instance w2 text language result of
                                 (Inl e, w3) \<Rightarrow> (Inl e, w3)
                               | (Inr none, w3) \<Rightarrow> (Inr result, w3))
                         else (Inr result, w2))))"

section \<open>\<^verbatim>\<open>app.py\<close>: the processors and the translator\<close>

text \<open>
  The NLTK functions the ISL processor calls are not part of the repository: they are
  parameters, and either may raise (a missing model is a \<^verbatim>\<open>LookupError\<close>).
\<close>

record nltk =
  word_tokenize :: "string \<Rightarrow> exn + string list"
  pos_tag :: "string list \<Rightarrow> exn + (string \<times> string) list"

definition UPLOAD_FOLDER :: string where
  "UPLOAD_FOLDER = ''static/videos''"

text \<open>\<^verbatim>\<open>ISLProcessor.tokenize_text\<close>.\<close>

definition tokenize_text :: "nltk \<Rightarrow> string \<Rightarrow> exn + string list" where
  "tokenize_text nl text =
     (case word_tokenize nl (str_lower text) of
        Inl e \<Rightarrow> Inl e
      | Inr tokens \<Rightarrow> Inr (filter isalnum tokens))"

text \<open>\<^verbatim>\<open>ISLProcessor.pos_tag\<close>.\<close>

definition ISLProcessor_pos_tag :: "nltk \<Rightarrow> string list \<Rightarrow> exn + (string \<times> string) list" where
  "ISLProcessor_pos_tag nl tokens = pos_tag nl tokens"

text \<open>
  The loop of \<^verbatim>\<open>ISLProcessor.convert_to_isl_structure\<close> over \<open>pos_tags\<close>, with its four
  lists \<open>subjects\<close>, \<open>objects\<close>, \<open>verbs\<close> and \<open>others\<close>.
\<close>

fun isl_loop ::
  "(string \<times> string) list \<Rightarrow> string list \<times> string list \<times> string list \<times> string list
     \<Rightarrow> string list \<times> string list \<times> string list \<times> string list" where
  "isl_loop [] acc = acc"
| "isl_loop ((token, pos) # rest) (subjects, objects, verbs, others) =
     (if startswith pos ''PRP'' then isl_loop rest (subjects @ [str_upper token], objects, verbs, others)
      else if startswith pos ''NN'' then isl_loop rest (subjects, objects @ [str_upper token], verbs, others)
      else if startswith pos ''VB'' then isl_loop rest (subjects, objects, verbs @ [str_upper token], others)
      else isl_loop rest (subjects, objects, verbs, others @ [str_upper token]))"

text \<open>\<^verbatim>\<open>ISLProcessor.convert_to_isl_structure\<close>; the method never reads \<open>tokens\<close>.\<close>

definition convert_to_isl_structure :: "string list \<Rightarrow> (string \<times> string) list \<Rightarrow> string list" where
  "convert_to_isl_structure tokens pos_tags =
     (case isl_loop pos_tags ([], [], [], []) of
        (subjects, objects, verbs, others) \<Rightarrow> subjects @ objects @ verbs @ others)"

text \<open>The branch of the loop a tag takes, as a category.\<close>

datatype category = SUBJECT | OBJECT | VERB | OTHER

definition category_of :: "string \<Rightarrow> category" where
  "category_of pos =
     (if startswith pos ''PRP'' then SUBJECT
      else if startswith pos ''NN'' then OBJECT
      else if startswith pos ''VB'' then VERB
      else OTHER)"

text \<open>The tokens of one category, upper-cased, in the order of \<open>pos_tags\<close>.\<close>

definition partition_of :: "category \<Rightarrow> (string \<times> string) list \<Rightarrow> string list" where
  "partition_of c pos_tags =
     map (\<lambda>tp. str_upper (fst tp)) (filter (\<lambda>tp. category_of (snd tp) = c) pos_tags)"

text \<open>\<^verbatim>\<open>ISLProcessor.create_placeholder_video\<close>.\<close>

definition create_placeholder_video :: "world \<Rightarrow> string \<Rightarrow> string list \<Rightarrow> exn + world" where
  "create_placeholder_video w video_path tokens =
     open_write w (str_replace video_path ''.mp4'' ''.txt'')
       (Bytes (''ISL Signs: '' @ str_join '' -> '' tokens))"

text \<open>\<^verbatim>\<open>ISLProcessor.generate_isl_video\<close>.\<close>

definition generate_isl_video :: "world \<Rightarrow> string list \<Rightarrow> (exn + string) \<times> world" where
  "generate_isl_video w isl_tokens =
     (case time_time w of
        (now, w1) \<Rightarrow>
          (let video_filename = ''isl_'' @ str_int (py_int now) @ ''.mp4'';
               video_path = os_path_join UPLOAD_FOLDER video_filename
           in case create_placeholder_video w1 video_path isl_tokens of
                Inl e \<Rightarrow> (Inl e, w1)
              | Inr w2 \<Rightarrow> (Inr video_filename, w2)))"

text \<open>\<^verbatim>\<open>ISLProcessor.process_text_to_isl\<close>; the dictionary it returns is the list of its items.\<close>

definition process_text_to_isl ::
  "nltk \<Rightarrow> world \<Rightarrow> string \<Rightarrow> (exn + (string \<times> pyval) list) \<times> world" where
  "process_text_to_isl nl w text =
     (case time_time w of
        (start_time, w1) \<Rightarrow>
          (case tokenize_text nl text of
             Inl e \<Rightarrow> (Inl e, w1)
           | Inr tokens \<Rightarrow>
               (case ISLProcessor_pos_tag nl tokens of
                  Inl e \<Rightarrow> (Inl e, w1)
                | Inr pos_tags \<Rightarrow>
                    (let isl_tokens = convert_to_isl_structure tokens pos_tags in
                     case generate_isl_video w1 isl_tokens of
                       (Inl e, w2) \<Rightarrow> (Inl e, w2)
                     | (Inr video_path, w2) \<Rightarrow>
                         (case time_time w2 of
                            (end_time, w3) \<Rightarrow>
                              (Inr [(''video_path'', PStr video_path),
                                    (''isl_gloss'', PStr (str_join '' '' isl_tokens)),
                                    (''processing_time'', PFloat (end_time - start_time))],
                               w3))))))"

text \<open>\<^verbatim>\<open>ISLProcessor.translate\<close>: \<^verbatim>\<open>except Exception as e\<close> turns \<open>e\<close> into a result.\<close>

definition ISLProcessor_translate :: "nltk \<Rightarrow> world \<Rightarrow> string \<Rightarrow> (exn + pyval) \<times> world" where
  "ISLProcessor_translate nl w text =
     (case process_text_to_isl nl w text of
        (Inr result, w1) \<Rightarrow>
          (Inr (PDict [(''success'', PBool True),
                       (''video_path'', dict_get result ''video_path''),
                       (''isl_gloss'', dict_get result ''isl_gloss''),
                       (''processing_time'', dict_get result ''processing_time'')]),
           w1)
      | (Inl e, w1) \<Rightarrow>
          (Inr (PDict [(''success'', PBool False), (''error'', PStr (str_exn e))]), w1))"

text \<open>\<^verbatim>\<open>ASLProcessor.generate_asl_video\<close>.\<close>

definition generate_asl_video :: "world \<Rightarrow> string list \<Rightarrow> (exn + string) \<times> world" where
  "generate_asl_video w asl_tokens =
     (case time_time w of
        (now, w1) \<Rightarrow>
          (let video_filename = ''asl_'' @ str_int (py_int now) @ ''.mp4'';
               video_path = os_path_join UPLOAD_FOLDER video_filename
           in case open_write w1 (str_replace video_path ''.mp4'' ''.txt'')
                     (Bytes (''ASL Signs: '' @ str_join '' -> '' asl_tokens)) of
                Inl e \<Rightarrow> (Inl e, w1)
              | Inr w2 \<Rightarrow> (Inr video_filename, w2)))"

text \<open>\<^verbatim>\<open>ASLProcessor.process_text_to_asl\<close>.\<close>

definition process_text_to_asl :: "world \<Rightarrow> string \<Rightarrow> (exn + (string \<times> pyval) list) \<times> world" where
  "process_text_to_asl w text =
     (case time_time w of
        (start_time, w1) \<Rightarrow>
          (let tokens = str_split (str_lower text);
               asl_tokens = map str_upper (filter isalnum tokens)
           in case generate_asl_video w1 asl_tokens of
                (Inl e, w2) \<Rightarrow> (Inl e, w2)
              | (Inr video_path, w2) \<Rightarrow>
                  (case time_time w2 of
                     (end_time, w3) \<Rightarrow>
                       (Inr [(''video_path'', PStr video_path),
                             (''asl_gloss'', PStr (str_join '' '' asl_tokens)),
                             (''processing_time'', PFloat (end_time - start_time))],
                        w3))))"

text \<open>\<^verbatim>\<open>ASLProcessor.translate\<close>.\<close>

definition ASLProcessor_translate :: "world \<Rightarrow> string \<Rightarrow> (exn + pyval) \<times> world" where
  "ASLProcessor_translate w text =
     (case process_text_to_asl w text of
        (Inr result, w1) \<Rightarrow>
          (Inr (PDict [(''success'', PBool True),
                       (''video_path'', dict_get result ''video_path''),
                       (''asl_gloss'', dict_get result ''asl_gloss''),
                       (''processing_time'', dict_get result ''processing_time'')]),
           w1)
      | (Inl e, w1) \<Rightarrow>
          (Inr (PDict [(''success'', PBool False), (''error'', PStr (str_exn e))]), w1))"

definition unsupported_language :: exn where
  "unsupported_language =
     ValueError (''Unsupported language. Use '' @ [CHR 0x27] @ ''isl'' @ [CHR 0x27]
                   @ '' or '' @ [CHR 0x27] @ ''asl'' @ [CHR 0x27])"

text \<open>\<^verbatim>\<open>SignLanguageTranslator.translate\<close>.\<close>

definition SignLanguageTranslator_translate ::
  "nltk \<Rightarrow> world \<Rightarrow> string \<Rightarrow> string \<Rightarrow> (exn + pyval) \<times> world" where
  "SignLanguageTranslator_translate nl w text language =
     (if str_lower language = ''isl'' then ISLProcessor_translate nl w text
      else if str_lower language = ''asl'' then ASLProcessor_translate w text
      else (Inl unsupported_language, w))"

text \<open>
  \<^verbatim>\<open>serve_video\<close> looks a returned file name up under the upload folder: whether the
  file it would send exists.
\<close>

definition serve_video_found :: "world \<Rightarrow> string \<Rightarrow> bool" where
  "serve_video_found w filename = os_path_exists w (os_path_join UPLOAD_FOLDER filename)"

section \<open>Concrete worlds and stand-ins for the examples\<close>

text \<open>
  A fresh world: no file, no path denied; the clock starts half a second after
  1699999999 and every call of \<^verbatim>\<open>time.time()\<close> finds it one second later.
\<close>

definition world0 :: world where
  "world0 = \<lparr>files = (\<lambda>p. None), denied = {}, clock = (\<lambda>n. 1699999999.5 + real n), ticks = 0\<rparr>"

text \<open>The same world on a file system where no file can be opened.\<close>

definition world_denied :: world where
  "world_denied = world0\<lparr>denied := UNIV\<rparr>"

text \<open>\<^verbatim>\<open>TranslationCache()\<close> with its default directory.\<close>

definition default_cache :: TranslationCache where
  "default_cache = \<lparr>cache_dir = ''cache''\<rparr>"

text \<open>
  A stand-in for NLTK on a three-word lexicon: tokens are the runs between white
  space, and every token gets one Penn Treebank tag.
\<close>

definition demo_tag :: "string \<Rightarrow> string" where
  "demo_tag t =
     (if t = ''i'' then ''PRP''
      else if t = ''eat'' then ''VBP''
      else if t = ''rice'' then ''NN''
      else ''RB'')"

definition demo_nltk :: nltk where
  "demo_nltk =
     \<lparr>word_tokenize = (\<lambda>s. Inr (str_split s)),
      pos_tag = (\<lambda>ts. Inr (map (\<lambda>t. (t, demo_tag t)) ts))\<rparr>"

text \<open>NLTK without its tokenizer model: \<^verbatim>\<open>word_tokenize\<close> raises \<^verbatim>\<open>LookupError\<close>.\<close>

definition missing_model_nltk :: nltk where
  "missing_model_nltk =
     \<lparr>word_tokenize = (\<lambda>s. Inl (LookupError ''Resource punkt not found'')),
      pos_tag = (\<lambda>ts. Inl (LookupError ''Resource averaged_perceptron_tagger not found''))\<rparr>"



section \<open>Facts about the digest and the cache file\<close>

lemma key_Hello: "get_cache_key ''Hello'' ''isl'' = Inr ''c47c419ce6c20a7dea40fb463249a246''"
  by code_simp

lemma key_hello: "get_cache_key ''hello'' ''isl'' = Inr ''3bc3b46c7f06f792f3bd2b88fe01a8eb''"
  by code_simp

lemma key_a_b_asl: "get_cache_key ''a_b'' ''asl'' = Inr ''6a44bcb40ae964ba0f46bec3a12964c9''"
  by code_simp

lemma lower_Hello: "str_lower ''Hello'' = str_lower ''hello''"
  by (simp add: str_lower_def lower_char_def char_of_def bit_Suc_0_iff)

lemma length_md5: "length (md5 msg) = 16"
  by (simp add: md5_def le32_bytes_def split: prod.splits)

lemma hex_digit_in: "n < 16 \<Longrightarrow> hex_digit n \<in> set ''0123456789abcdef''"
  unfolding hex_digit_def by (rule nth_mem) simp

lemma length_hexdigest: "length (hexdigest bs) = 2 * length bs"
  by (induction bs) (simp_all add: hexdigest_def)

lemma set_hexdigest: "set (hexdigest bs) \<subseteq> set ''0123456789abcdef''"
proof -
  have "hex_digit (unat b div 16) \<in> set ''0123456789abcdef''" for b :: byte
  proof (rule hex_digit_in)
    have "unat b < 256" using unsigned_less [of b] by simp
    then show "unat b div 16 < 16" by simp
  qed
  moreover have "hex_digit (unat b mod 16) \<in> set ''0123456789abcdef''" for b :: byte
    by (rule hex_digit_in) simp
  ultimately show ?thesis
    unfolding hexdigest_def by (induction bs) auto
qed

lemma get_cache_key_Inr:
  assumes "get_cache_key text language = Inr k"
  shows "length k = 32 \<and> set k \<subseteq> set ''0123456789abcdef''"
proof -
  obtain content where "k = hexdigest (md5 content)"
    using assms by (auto simp: get_cache_key_def split: sum.splits)
  then show ?thesis
    using set_hexdigest [of "md5 content"] by (simp add: length_hexdigest length_md5)
qed

lemma get_cache_key_encodes:
  "(\<exists>k. get_cache_key text language = Inr k) \<longleftrightarrow> \<not> has_surrogate (text @ ''_'' @ language)"
  by (auto simp: get_cache_key_def encode_utf8_def split: sum.splits)

lemma cache_file_encodes:
  "(\<exists>p. cache_file self text language = Inr p) \<longleftrightarrow> \<not> has_surrogate (text @ ''_'' @ language)"
  using get_cache_key_encodes [of "text" language]
  by (auto simp: cache_file_def split: sum.splits)

lemma cache_file_hello:
  "cache_file default_cache ''hello'' ''isl'' = Inr ''cache/3bc3b46c7f06f792f3bd2b88fe01a8eb.pkl''"
  by (simp add: cache_file_def key_hello default_cache_def os_path_join_def startswith_def endswith_def)

lemma cache_file_a_b_asl:
  "cache_file default_cache ''a_b'' ''asl'' = Inr ''cache/6a44bcb40ae964ba0f46bec3a12964c9.pkl''"
  by (simp add: cache_file_def key_a_b_asl default_cache_def os_path_join_def startswith_def endswith_def)


section \<open>Facts about \<^verbatim>\<open>get\<close> and \<^verbatim>\<open>set\<close>\<close>


lemma TranslationCache_set_written:
  assumes "cache_file self text language = Inr p" and "p \<notin> denied w"
  shows "TranslationCache_set self w text language r =
           (Inr PNone,
            w\<lparr>ticks := Suc (ticks w),
              files := (files w)(p \<mapsto>
                 Pickle (PDict [(''result'', r), (''timestamp'', PFloat (clock w (ticks w)))]))\<rparr>)"
  using assms by (simp add: TranslationCache_set_def time_time_def open_write_def)

lemma TranslationCache_set_denied:
  assumes "cache_file self text language = Inr p" and "p \<in> denied w"
  shows "TranslationCache_set self w text language r = (Inr PNone, w\<lparr>ticks := Suc (ticks w)\<rparr>)"
  using assms by (simp add: TranslationCache_set_def time_time_def open_write_def)

lemma TranslationCache_set_raises:
  assumes "cache_file self text language = Inl e"
  shows "TranslationCache_set self w text language r = (Inl e, w)"
  using assms by (simp add: TranslationCache_set_def)

lemma TranslationCache_get_fresh:
  assumes "cache_file self text language = Inr p"
    and "files w p = Some (Pickle d)"
    and "p \<notin> denied w"
    and "py_getitem d ''timestamp'' = Inr ts"
    and "py_sub (clock w (ticks w)) ts = Inr age"
    and "age < 86400"
    and "py_getitem d ''result'' = Inr r"
  shows "TranslationCache_get self w text language = (Inr r, w\<lparr>ticks := Suc (ticks w)\<rparr>)"
  using assms
  by (simp add: TranslationCache_get_def os_path_exists_def get_try_def open_read_def time_time_def)

lemma TranslationCache_get_missing:
  assumes "cache_file self text language = Inr p" and "files w p = None"
  shows "TranslationCache_get self w text language = (Inr PNone, w)"
  using assms by (simp add: TranslationCache_get_def os_path_exists_def)

lemma TranslationCache_get_raises:
  assumes "cache_file self text language = Inl e"
  shows "TranslationCache_get self w text language = (Inl e, w)"
  using assms by (simp add: TranslationCache_get_def)

lemma TranslationCache_get_Inr:
  assumes "cache_file self text language = Inr p"
  shows "\<exists>v. fst (TranslationCache_get self w text language) = Inr v"
  using assms
  by (auto simp: TranslationCache_get_def get_try_def Let_def split: prod.splits sum.splits option.splits)

lemma TranslationCache_get_Inr_path:
  assumes "TranslationCache_get self w text language = (Inr v, w1)"
  shows "\<exists>p. cache_file self text language = Inr p"
  using assms by (cases "cache_file self text language") (simp_all add: TranslationCache_get_def)

lemma TranslationCache_get_files: "files (snd (TranslationCache_get self w text language)) = files w"
  by (auto simp: TranslationCache_get_def get_try_def Let_def time_time_def open_read_def
      split: prod.splits sum.splits option.splits if_splits)

lemma set_get_roundtrip:
  assumes "cache_file self text language = Inr p"
    and "p \<notin> denied w"
    and "clock w (Suc (ticks w)) - clock w (ticks w) < 86400"
  shows "TranslationCache_get self (snd (TranslationCache_set self w text language r)) text language
           = (Inr r, (snd (TranslationCache_set self w text language r))\<lparr>ticks := Suc (Suc (ticks w))\<rparr>)"
proof -
  let ?w' = "snd (TranslationCache_set self w text language r)"
  let ?d = "PDict [(''result'', r), (''timestamp'', PFloat (clock w (ticks w)))]"
  have w': "?w' = w\<lparr>ticks := Suc (ticks w), files := (files w)(p \<mapsto> Pickle ?d)\<rparr>"
    by (simp add: TranslationCache_set_written [OF assms(1,2)])
  have "TranslationCache_get self ?w' text language = (Inr r, ?w'\<lparr>ticks := Suc (ticks ?w')\<rparr>)"
  proof (rule TranslationCache_get_fresh [OF assms(1)])
    show "files ?w' p = Some (Pickle ?d)" by (simp add: w')
    show "p \<notin> denied ?w'" using assms(2) by (simp add: w')
    show "py_getitem ?d ''timestamp'' = Inr (PFloat (clock w (ticks w)))" by simp
    show "py_sub (clock ?w' (ticks ?w')) (PFloat (clock w (ticks w)))
            = Inr (clock w (Suc (ticks w)) - clock w (ticks w))"
      by (simp add: w' py_sub_def)
    show "clock w (Suc (ticks w)) - clock w (ticks w) < 86400" by (rule assms(3))
    show "py_getitem ?d ''result'' = Inr r" by simp
  qed
  then show ?thesis by (simp add: w')
qed

section \<open>The cache key\<close>

text \<open>
  C2, as the code has it: the cache key is a function of the text as it was passed
  and the language alone. When \<^verbatim>\<open>text + "_" + language\<close> encodes as UTF-8, which it
  does exactly when it holds no surrogate, the key is the 32 hexadecimal digits of
  the MD5 of its bytes; otherwise the \<^verbatim>\<open>UnicodeEncodeError\<close> of \<^verbatim>\<open>encode\<close> leaves
  \<^verbatim>\<open>get_cache_key\<close>. The text is not normalized on the way.
\<close>

theorem cache_key_of_raw_text:
  "get_cache_key text language =
     (case encode_utf8 (text @ ''_'' @ language) of
        Inl e \<Rightarrow> Inl e
      | Inr content \<Rightarrow> Inr (hexdigest (md5 content)))
   \<and> (\<forall>k. get_cache_key text language = Inr k
         \<longrightarrow> length k = 32 \<and> set k \<subseteq> set ''0123456789abcdef'')
   \<and> ((\<exists>k. get_cache_key text language = Inr k) \<longleftrightarrow> \<not> has_surrogate (text @ ''_'' @ language))"
  using get_cache_key_Inr [of "text" language] get_cache_key_encodes [of "text" language]
  by (simp add: get_cache_key_def)

text \<open>The theorem at the text \<^verbatim>\<open>hello\<close> and the language \<^verbatim>\<open>isl\<close>.\<close>

theorem cache_key_of_raw_text_witness:
  "get_cache_key ''hello'' ''isl'' = Inr ''3bc3b46c7f06f792f3bd2b88fe01a8eb''
   \<and> length ''3bc3b46c7f06f792f3bd2b88fe01a8eb'' = 32
   \<and> set ''3bc3b46c7f06f792f3bd2b88fe01a8eb'' \<subseteq> set ''0123456789abcdef''"
  using cache_key_of_raw_text [of "''hello''" "''isl''", THEN conjunct2, THEN conjunct1,
      rule_format, OF key_hello] key_hello
  by simp

text \<open>
  C2 as stated fails: \<^verbatim>\<open>Hello\<close> and \<^verbatim>\<open>hello\<close> are equal once lower-cased, and their
  keys for the language \<^verbatim>\<open>isl\<close> differ.
\<close>

theorem cache_key_case_counterexample:
  "str_lower ''Hello'' = str_lower ''hello''
   \<and> get_cache_key ''Hello'' ''isl'' \<noteq> get_cache_key ''hello'' ''isl''"
  by (simp add: key_Hello key_hello lower_Hello)

text \<open>
  C10: two different requests share a key. The pairs \<^verbatim>\<open>("a_b", "c")\<close> and
  \<^verbatim>\<open>("a", "b_c")\<close> join to the same string, so they get the same key, and what
  \<^verbatim>\<open>set\<close> stored for the first \<^verbatim>\<open>get\<close> returns for the second.
\<close>

theorem cache_key_collision:
  "(''a_b'', ''c'') \<noteq> (''a'', ''b_c'')
   \<and> get_cache_key ''a_b'' ''c'' = get_cache_key ''a'' ''b_c''
   \<and> (\<exists>k. get_cache_key ''a_b'' ''c'' = Inr k)
   \<and> fst (TranslationCache_get default_cache
            (snd (TranslationCache_set default_cache world0 ''a_b'' ''c'' r)) ''a'' ''b_c'')
       = Inr r"
proof -
  have k: "get_cache_key ''a_b'' ''c'' = get_cache_key ''a'' ''b_c''"
    by (simp add: get_cache_key_def)
  have f: "cache_file default_cache ''a'' ''b_c'' = cache_file default_cache ''a_b'' ''c''"
    by (simp add: cache_file_def k)
  have e: "\<exists>k. get_cache_key ''a_b'' ''c'' = Inr k"
    by (simp add: get_cache_key_encodes)
  then obtain p where p: "cache_file default_cache ''a_b'' ''c'' = Inr p"
    by (auto simp: cache_file_def)
  have "fst (TranslationCache_get default_cache
            (snd (TranslationCache_set default_cache world0 ''a_b'' ''c'' r)) ''a_b'' ''c'') = Inr r"
    by (subst set_get_roundtrip [OF p]) (simp_all add: world0_def)
  then have "fst (TranslationCache_get default_cache
            (snd (TranslationCache_set default_cache world0 ''a_b'' ''c'' r)) ''a'' ''b_c'') = Inr r"
    by (simp add: TranslationCache_get_def f)
  with k e show ?thesis by simp
qed

section \<open>Reading and writing the cache\<close>




text \<open>
  C4, as the code has it: when \<^verbatim>\<open>text + "_" + language\<close> encodes as UTF-8 and the
  cache file of its key can be opened, \<^verbatim>\<open>get\<close> right after
  \<^verbatim>\<open>set(text, language, r)\<close>, less than 86400 seconds later by the clock, returns \<open>r\<close>.
\<close>

theorem set_then_get_when_written:
  assumes "encode_utf8 (text @ ''_'' @ language) = Inr content"
    and "os_path_join (cache_dir self) (hexdigest (md5 content) @ ''.pkl'') \<notin> denied w"
    and "clock w (Suc (ticks w)) - clock w (ticks w) < 86400"
  shows "fst (TranslationCache_get self (snd (TranslationCache_set self w text language r)) text language)
           = Inr r"
proof -
  have "cache_file self text language
          = Inr (os_path_join (cache_dir self) (hexdigest (md5 content) @ ''.pkl''))"
    using assms(1) by (simp add: cache_file_def get_cache_key_def)
  from set_get_roundtrip [OF this assms(2,3)] show ?thesis by simp
qed

theorem set_then_get_when_written_witness:
  "fst (TranslationCache_get default_cache
          (snd (TranslationCache_set default_cache world0 ''hello'' ''isl'' (PDict [(''success'', PBool True)])))
          ''hello'' ''isl'')
     = Inr (PDict [(''success'', PBool True)])"
proof -
  obtain content where c: "encode_utf8 (''hello'' @ ''_'' @ ''isl'') = Inr content"
    by (simp add: encode_utf8_def)
  show ?thesis
    by (rule set_then_get_when_written [OF c]) (simp_all add: world0_def)
qed

text \<open>
  C4 as stated fails where the file cannot be opened: \<^verbatim>\<open>set\<close> swallows the error,
  nothing is stored, and \<^verbatim>\<open>get\<close> one second later returns \<^verbatim>\<open>None\<close>.
\<close>

theorem set_then_get_counterexample:
  "clock world_denied (Suc (ticks world_denied)) - clock world_denied (ticks world_denied) < 86400
   \<and> fst (TranslationCache_get default_cache
          (snd (TranslationCache_set default_cache world_denied ''hello'' ''isl'' (PDict [(''success'', PBool True)])))
          ''hello'' ''isl'')
     \<noteq> Inr (PDict [(''success'', PBool True)])"
  by (simp add: TranslationCache_set_denied [OF cache_file_hello]
      TranslationCache_get_missing [OF cache_file_hello] world_denied_def world0_def)

section \<open>The ISL gloss sequence\<close>

lemmas str_eval = str_lower_def lower_char_def str_upper_def upper_char_def isalnum_def
  isalnum_char_def isspace_char_def str_split_def char_of_def bit_Suc_0_iff

lemma partition_of_Nil: "partition_of c [] = []"
  by (simp add: partition_of_def)

lemma partition_of_Cons:
  "partition_of c ((token, pos) # rest) =
     (if category_of pos = c then str_upper token # partition_of c rest else partition_of c rest)"
  by (simp add: partition_of_def)

lemma isl_loop_partition:
  "isl_loop pos_tags (sb, ob, vb, ot) =
     (sb @ partition_of SUBJECT pos_tags, ob @ partition_of OBJECT pos_tags,
      vb @ partition_of VERB pos_tags, ot @ partition_of OTHER pos_tags)"
proof (induction pos_tags arbitrary: sb ob vb ot)
  case Nil
  then show ?case by (simp add: partition_of_Nil)
next
  case (Cons tp rest)
  obtain token pos where tp: "tp = (token, pos)" by (cases tp)
  show ?case
    unfolding tp by (simp add: Cons.IH partition_of_Cons category_of_def)
qed

lemma convert_to_isl_structure_partition:
  "convert_to_isl_structure tokens pos_tags =
     partition_of SUBJECT pos_tags @ partition_of OBJECT pos_tags
       @ partition_of VERB pos_tags @ partition_of OTHER pos_tags"
  by (simp add: convert_to_isl_structure_def isl_loop_partition)

lemma mset_partitions:
  "mset (partition_of SUBJECT pos_tags) + mset (partition_of OBJECT pos_tags)
     + mset (partition_of VERB pos_tags) + mset (partition_of OTHER pos_tags)
   = mset (map (\<lambda>tp. str_upper (fst tp)) pos_tags)"
proof (induction pos_tags)
  case Nil
  then show ?case by (simp add: partition_of_Nil)
next
  case (Cons tp rest)
  obtain token pos where tp: "tp = (token, pos)" by (cases tp)
  show ?case
    unfolding tp using Cons.IH
    by (cases "category_of pos") (simp_all add: partition_of_Cons)
qed

lemma subseq_partition_of:
  "subseq (partition_of c pos_tags) (map (\<lambda>tp. str_upper (fst tp)) pos_tags)"
  unfolding partition_of_def by (rule subseq_map) (rule subseq_filter_left)

lemma isl_gloss_of_result:
  assumes "process_text_to_isl nl w text = (Inr res, w')"
    and "tokenize_text nl text = Inr tokens"
    and "ISLProcessor_pos_tag nl tokens = Inr pos_tags"
  shows "dict_get res ''isl_gloss'' = PStr (str_join '' '' (convert_to_isl_structure tokens pos_tags))"
  using assms
  by (auto simp: process_text_to_isl_def time_time_def Let_def dict_get_def
      split: prod.splits sum.splits)

text \<open>
  C1: for a text the ISL pipeline tokenizes and tags, with the tagger returning one
  pair for every retained token in order, the gloss sequence is the SUBJECT, OBJECT,
  VERB and OTHER partitions joined in that order; every partition is a subsequence of
  the upper-cased tokens, so it keeps their relative order; the sequence has exactly
  the upper-cased retained tokens, each as often as it occurs; the retained tokens
  are alphanumeric; and the \<^verbatim>\<open>isl_gloss\<close> of the result is that sequence joined by
  spaces.
\<close>

theorem isl_gloss_partitions:
  assumes "tokenize_text nl text = Inr tokens"
    and "ISLProcessor_pos_tag nl tokens = Inr pos_tags"
    and "map fst pos_tags = tokens"
  shows "convert_to_isl_structure tokens pos_tags =
           partition_of SUBJECT pos_tags @ partition_of OBJECT pos_tags
             @ partition_of VERB pos_tags @ partition_of OTHER pos_tags
         \<and> (\<forall>c. subseq (partition_of c pos_tags) (map str_upper tokens))
         \<and> mset (convert_to_isl_structure tokens pos_tags) = mset (map str_upper tokens)
         \<and> list_all isalnum tokens
         \<and> (\<forall>w res w'. process_text_to_isl nl w text = (Inr res, w')
               \<longrightarrow> dict_get res ''isl_gloss''
                     = PStr (str_join '' '' (convert_to_isl_structure tokens pos_tags)))"
proof -
  have up: "map (\<lambda>tp. str_upper (fst tp)) pos_tags = map str_upper tokens"
    by (simp add: assms(3) [symmetric] comp_def)
  have "mset (convert_to_isl_structure tokens pos_tags) = mset (map str_upper tokens)"
    using mset_partitions [of pos_tags]
    by (simp add: convert_to_isl_structure_partition up ac_simps)
  moreover have "\<forall>c. subseq (partition_of c pos_tags) (map str_upper tokens)"
    using subseq_partition_of [of _ pos_tags] by (simp add: up)
  moreover have "list_all isalnum tokens"
    using assms(1) by (auto simp: tokenize_text_def list_all_iff split: sum.splits)
  ultimately show ?thesis
    using isl_gloss_of_result [OF _ assms(1) assms(2)]
    by (simp add: convert_to_isl_structure_partition)
qed

text \<open>
  The theorem at \<^verbatim>\<open>I eat rice\<close> with the stand-in tagger: the gloss is I, RICE, EAT.
\<close>

theorem isl_gloss_partitions_witness:
  "tokenize_text demo_nltk ''I eat rice'' = Inr [''i'', ''eat'', ''rice'']
   \<and> ISLProcessor_pos_tag demo_nltk [''i'', ''eat'', ''rice'']
       = Inr [(''i'', ''PRP''), (''eat'', ''VBP''), (''rice'', ''NN'')]
   \<and> convert_to_isl_structure [''i'', ''eat'', ''rice'']
        [(''i'', ''PRP''), (''eat'', ''VBP''), (''rice'', ''NN'')] = [''I'', ''RICE'', ''EAT'']
   \<and> mset [''I'', ''RICE'', ''EAT''] = mset (map str_upper [''i'', ''eat'', ''rice''])"
proof -
  have h1: "tokenize_text demo_nltk ''I eat rice'' = Inr [''i'', ''eat'', ''rice'']"
    by (simp add: tokenize_text_def demo_nltk_def str_eval)
  have h2: "ISLProcessor_pos_tag demo_nltk [''i'', ''eat'', ''rice'']
       = Inr [(''i'', ''PRP''), (''eat'', ''VBP''), (''rice'', ''NN'')]"
    by (simp add: ISLProcessor_pos_tag_def demo_nltk_def demo_tag_def)
  have h3: "map fst [(''i'', ''PRP''), (''eat'', ''VBP''), (''rice'', ''NN'')] = [''i'', ''eat'', ''rice'']"
    by simp
  have p: "partition_of SUBJECT [(''i'', ''PRP''), (''eat'', ''VBP''), (''rice'', ''NN'')]
             @ partition_of OBJECT [(''i'', ''PRP''), (''eat'', ''VBP''), (''rice'', ''NN'')]
             @ partition_of VERB [(''i'', ''PRP''), (''eat'', ''VBP''), (''rice'', ''NN'')]
             @ partition_of OTHER [(''i'', ''PRP''), (''eat'', ''VBP''), (''rice'', ''NN'')]
           = [''I'', ''RICE'', ''EAT'']"
    by (simp add: partition_of_def category_of_def startswith_def str_eval)
  have u: "map str_upper [''i'', ''eat'', ''rice''] = [''I'', ''EAT'', ''RICE'']"
    by (simp add: str_eval)
  from isl_gloss_partitions [OF h1 h2 h3] h1 h2 p u show ?thesis
    by simp
qed

section \<open>Asset names and the placeholder renderer\<close>

lemma digit_char_not_dot: "d < 10 \<Longrightarrow> digit_char d \<noteq> CHR ''.''"
proof
  assume d: "d < 10" and "digit_char d = CHR ''.''"
  then have "(of_char (digit_char d) :: nat) = of_char CHR ''.''" by simp
  then have "(48 + d) mod 256 = (46 :: nat)" by (simp add: digit_char_def)
  with d show False by simp
qed

lemma digits_nat_no_dot: "CHR ''.'' \<notin> set (digits_nat n)"
proof (induction n rule: digits_nat.induct)
  case (1 n)
  show ?case
  proof (cases "n < 10")
    case True
    then show ?thesis
      using digit_char_not_dot [of n] by (subst digits_nat.simps) auto
  next
    case False
    have "n mod 10 < 10" by simp
    then have "digit_char (n mod 10) \<noteq> CHR ''.''" by (rule digit_char_not_dot)
    with False "1.IH" show ?thesis
      by (subst digits_nat.simps) auto
  qed
qed

lemma str_int_no_dot: "CHR ''.'' \<notin> set (str_int i)"
  by (simp add: str_int_def digits_nat_no_dot)

lemma replace_from_suffix:
  "CHR ''.'' \<notin> set s \<Longrightarrow> replace_from ''.mp4'' ''.txt'' (s @ ''.mp4'') = s @ ''.txt''"
proof (induction s)
  case Nil
  have "replace_from ''.mp4'' ''.txt'' [] = []" by (subst replace_from.simps) simp
  then show ?case by (subst replace_from.simps) simp
next
  case (Cons c cs)
  then have "c \<noteq> CHR ''.''" and "CHR ''.'' \<notin> set cs" by auto
  with Cons.IH show ?case by (subst replace_from.simps) simp
qed

lemma video_text_path:
  assumes "CHR ''.'' \<notin> set stem" and "\<not> startswith stem ''/''" and "stem \<noteq> []"
  shows "str_replace (os_path_join UPLOAD_FOLDER (stem @ ''.mp4'')) ''.mp4'' ''.txt''
           = ''static/videos/'' @ stem @ ''.txt''"
proof -
  obtain c cs where stem: "stem = c # cs" using assms(3) by (cases stem) auto
  with assms(2) have c: "c \<noteq> CHR ''/''" by (simp add: startswith_def)
  have j: "os_path_join UPLOAD_FOLDER (stem @ ''.mp4'') = (''static/videos/'' @ stem) @ ''.mp4''"
    using c by (simp add: os_path_join_def UPLOAD_FOLDER_def startswith_def endswith_def stem)
  have "CHR ''.'' \<notin> set (''static/videos/'' @ stem)" using assms(1) by simp
  then have "replace_from ''.mp4'' ''.txt'' ((''static/videos/'' @ stem) @ ''.mp4'')
               = (''static/videos/'' @ stem) @ ''.txt''"
    by (rule replace_from_suffix)
  then show ?thesis unfolding j by (simp add: str_replace_def)
qed

lemma generate_isl_video_eq:
  "generate_isl_video w isl_tokens =
     (if ''static/videos/isl_'' @ str_int (py_int (clock w (ticks w))) @ ''.txt'' \<in> denied w
      then (Inl (OSError ''Permission denied''), w\<lparr>ticks := Suc (ticks w)\<rparr>)
      else (Inr (''isl_'' @ str_int (py_int (clock w (ticks w))) @ ''.mp4''),
            w\<lparr>ticks := Suc (ticks w),
              files := (files w)(''static/videos/isl_'' @ str_int (py_int (clock w (ticks w))) @ ''.txt''
                 \<mapsto> Bytes (''ISL Signs: '' @ str_join '' -> '' isl_tokens))\<rparr>))"
proof -
  have "str_replace (os_path_join UPLOAD_FOLDER ((''isl_'' @ str_int (py_int (clock w (ticks w)))) @ ''.mp4''))
          ''.mp4'' ''.txt''
        = ''static/videos/'' @ (''isl_'' @ str_int (py_int (clock w (ticks w)))) @ ''.txt''"
    by (rule video_text_path) (simp_all add: str_int_no_dot startswith_def)
  then show ?thesis
    by (simp add: generate_isl_video_def time_time_def create_placeholder_video_def open_write_def)
qed

lemma generate_asl_video_eq:
  "generate_asl_video w asl_tokens =
     (if ''static/videos/asl_'' @ str_int (py_int (clock w (ticks w))) @ ''.txt'' \<in> denied w
      then (Inl (OSError ''Permission denied''), w\<lparr>ticks := Suc (ticks w)\<rparr>)
      else (Inr (''asl_'' @ str_int (py_int (clock w (ticks w))) @ ''.mp4''),
            w\<lparr>ticks := Suc (ticks w),
              files := (files w)(''static/videos/asl_'' @ str_int (py_int (clock w (ticks w))) @ ''.txt''
                 \<mapsto> Bytes (''ASL Signs: '' @ str_join '' -> '' asl_tokens))\<rparr>))"
proof -
  have "str_replace (os_path_join UPLOAD_FOLDER ((''asl_'' @ str_int (py_int (clock w (ticks w)))) @ ''.mp4''))
          ''.mp4'' ''.txt''
        = ''static/videos/'' @ (''asl_'' @ str_int (py_int (clock w (ticks w)))) @ ''.txt''"
    by (rule video_text_path) (simp_all add: str_int_no_dot startswith_def)
  then show ?thesis
    by (simp add: generate_asl_video_def time_time_def open_write_def)
qed

lemma str_int_world0: "str_int (py_int (clock world0 (ticks world0))) = ''1699999999''"
  by (simp add: world0_def py_int_def str_int_def digits_nat.simps digit_char_def char_of_def bit_Suc_0_iff)

text \<open>
  C8, as the code has it: the name either processor returns is the language prefix,
  an underscore, the clock cut to whole seconds, and the extension \<^verbatim>\<open>.mp4\<close>; when the
  placeholder file cannot be opened the \<^verbatim>\<open>OSError\<close> leaves the method instead.
\<close>

theorem asset_name_has_extension:
  "fst (generate_isl_video w isl_tokens) =
     (if ''static/videos/isl_'' @ str_int (py_int (clock w (ticks w))) @ ''.txt'' \<in> denied w
      then Inl (OSError ''Permission denied'')
      else Inr (''isl_'' @ str_int (py_int (clock w (ticks w))) @ ''.mp4''))
   \<and> fst (generate_asl_video w asl_tokens) =
     (if ''static/videos/asl_'' @ str_int (py_int (clock w (ticks w))) @ ''.txt'' \<in> denied w
      then Inl (OSError ''Permission denied'')
      else Inr (''asl_'' @ str_int (py_int (clock w (ticks w))) @ ''.mp4''))"
  by (simp add: generate_isl_video_eq generate_asl_video_eq)

text \<open>
  C8 as stated fails: at the clock value 1699999999.5 the name is
  \<^verbatim>\<open>isl_1699999999.mp4\<close>, not \<^verbatim>\<open>isl_1699999999\<close>.
\<close>

theorem asset_name_counterexample:
  "py_int (clock world0 (ticks world0)) = 1699999999
   \<and> fst (generate_isl_video world0 [''I'', ''RICE'', ''EAT'']) = Inr ''isl_1699999999.mp4''
   \<and> fst (generate_isl_video world0 [''I'', ''RICE'', ''EAT'']) \<noteq> Inr ''isl_1699999999''"
proof -
  have "py_int (clock world0 (ticks world0)) = 1699999999"
    by (simp add: world0_def py_int_def)
  moreover have "fst (generate_isl_video world0 [''I'', ''RICE'', ''EAT'']) = Inr ''isl_1699999999.mp4''"
    by (simp add: generate_isl_video_eq str_int_world0) (simp add: world0_def)
  ultimately show ?thesis by simp
qed

text \<open>
  C9, as the code has it: when the file can be opened, the placeholder renderer
  writes the line \<^verbatim>\<open>ISL Signs: \<close> (or \<^verbatim>\<open>ASL Signs: \<close>) followed by the glosses joined
  by \<^verbatim>\<open> -> \<close> to the upload folder under the asset name with the extension
  \<^verbatim>\<open>.txt\<close>, and returns the asset name with the extension \<^verbatim>\<open>.mp4\<close>. The file of that
  returned name is not touched: \<^verbatim>\<open>serve_video\<close> finds it after the call exactly when
  it found it before.
\<close>

theorem placeholder_written_beside_returned_name:
  "(''static/videos/isl_'' @ str_int (py_int (clock w (ticks w))) @ ''.txt'' \<notin> denied w \<longrightarrow>
      generate_isl_video w isl_tokens =
        (Inr (''isl_'' @ str_int (py_int (clock w (ticks w))) @ ''.mp4''),
         w\<lparr>ticks := Suc (ticks w),
           files := (files w)(''static/videos/isl_'' @ str_int (py_int (clock w (ticks w))) @ ''.txt''
              \<mapsto> Bytes (''ISL Signs: '' @ str_join '' -> '' isl_tokens))\<rparr>)
      \<and> serve_video_found (snd (generate_isl_video w isl_tokens))
           (''isl_'' @ str_int (py_int (clock w (ticks w))) @ ''.mp4'')
        = serve_video_found w (''isl_'' @ str_int (py_int (clock w (ticks w))) @ ''.mp4''))
   \<and> (''static/videos/asl_'' @ str_int (py_int (clock w (ticks w))) @ ''.txt'' \<notin> denied w \<longrightarrow>
      generate_asl_video w asl_tokens =
        (Inr (''asl_'' @ str_int (py_int (clock w (ticks w))) @ ''.mp4''),
         w\<lparr>ticks := Suc (ticks w),
           files := (files w)(''static/videos/asl_'' @ str_int (py_int (clock w (ticks w))) @ ''.txt''
              \<mapsto> Bytes (''ASL Signs: '' @ str_join '' -> '' asl_tokens))\<rparr>)
      \<and> serve_video_found (snd (generate_asl_video w asl_tokens))
           (''asl_'' @ str_int (py_int (clock w (ticks w))) @ ''.mp4'')
        = serve_video_found w (''asl_'' @ str_int (py_int (clock w (ticks w))) @ ''.mp4''))"
  by (simp add: generate_isl_video_eq generate_asl_video_eq serve_video_found_def
      os_path_exists_def os_path_join_def UPLOAD_FOLDER_def startswith_def endswith_def)

text \<open>The theorem at the fresh world and the glosses HELLO, WORLD.\<close>

theorem placeholder_written_witness:
  "generate_asl_video world0 [''HELLO'', ''WORLD''] =
     (Inr ''asl_1699999999.mp4'',
      world0\<lparr>ticks := Suc 0,
        files := (files world0)(''static/videos/asl_1699999999.txt''
           \<mapsto> Bytes ''ASL Signs: HELLO -> WORLD'')\<rparr>)"
proof -
  have d: "''static/videos/asl_'' @ str_int (py_int (clock world0 (ticks world0))) @ ''.txt''
             \<notin> denied world0"
    by (simp add: world0_def)
  from placeholder_written_beside_returned_name [of world0 _ "[''HELLO'', ''WORLD'']", THEN conjunct2,
      rule_format, OF d, THEN conjunct1]
  show ?thesis
    by (simp add: str_int_world0) (simp add: world0_def)
qed

text \<open>
  C9 as stated fails: in the fresh world the renderer returns
  \<^verbatim>\<open>isl_1699999999.mp4\<close>, the file it wrote is \<^verbatim>\<open>static/videos/isl_1699999999.txt\<close>,
  and \<^verbatim>\<open>serve_video\<close> does not find the returned name.
\<close>

theorem returned_reference_counterexample:
  "fst (generate_isl_video world0 [''I'', ''RICE'', ''EAT'']) = Inr ''isl_1699999999.mp4''
   \<and> \<not> serve_video_found (snd (generate_isl_video world0 [''I'', ''RICE'', ''EAT''])) ''isl_1699999999.mp4''
   \<and> files (snd (generate_isl_video world0 [''I'', ''RICE'', ''EAT''])) ''static/videos/isl_1699999999.txt''
       = Some (Bytes ''ISL Signs: I -> RICE -> EAT'')"
proof -
  have "generate_isl_video world0 [''I'', ''RICE'', ''EAT''] =
     (Inr ''isl_1699999999.mp4'',
      world0\<lparr>ticks := Suc 0,
        files := (files world0)(''static/videos/isl_1699999999.txt''
           \<mapsto> Bytes ''ISL Signs: I -> RICE -> EAT'')\<rparr>)"
    by (simp add: generate_isl_video_eq str_int_world0) (simp add: world0_def)
  then show ?thesis
    by (simp add: serve_video_found_def os_path_exists_def os_path_join_def UPLOAD_FOLDER_def
        startswith_def endswith_def world0_def)
qed

section \<open>The processors catch what the pipeline raises\<close>

lemma ISLProcessor_translate_Inr: "\<exists>d. fst (ISLProcessor_translate nl w text) = Inr (PDict d)"
  by (auto simp: ISLProcessor_translate_def split: prod.splits sum.splits)

lemma ASLProcessor_translate_Inr: "\<exists>d. fst (ASLProcessor_translate w text) = Inr (PDict d)"
  by (auto simp: ASLProcessor_translate_def split: prod.splits sum.splits)

text \<open>
  C7: \<^verbatim>\<open>ISLProcessor.translate\<close> and \<^verbatim>\<open>ASLProcessor.translate\<close> always return a
  dictionary and never raise. Whatever exception the processing raises becomes the
  result \<^verbatim>\<open>{success: False, error: str(e)}\<close>: an exception of the tokenizer, of the
  tagger, and of the video step alike.
\<close>

theorem processors_catch_every_exception:
  "(\<exists>d. fst (ISLProcessor_translate nl w text) = Inr (PDict d))
   \<and> (\<forall>e w'. process_text_to_isl nl w text = (Inl e, w')
         \<longrightarrow> ISLProcessor_translate nl w text
               = (Inr (PDict [(''success'', PBool False), (''error'', PStr (str_exn e))]), w'))
   \<and> (\<forall>e. word_tokenize nl (str_lower text) = Inl e
         \<longrightarrow> fst (ISLProcessor_translate nl w text)
               = Inr (PDict [(''success'', PBool False), (''error'', PStr (str_exn e))]))
   \<and> (\<forall>toks e. word_tokenize nl (str_lower text) = Inr toks \<and> pos_tag nl (filter isalnum toks) = Inl e
         \<longrightarrow> fst (ISLProcessor_translate nl w text)
               = Inr (PDict [(''success'', PBool False), (''error'', PStr (str_exn e))]))
   \<and> (\<forall>toks tagged e. word_tokenize nl (str_lower text) = Inr toks
           \<and> pos_tag nl (filter isalnum toks) = Inr tagged
           \<and> fst (generate_isl_video (w\<lparr>ticks := Suc (ticks w)\<rparr>)
                    (convert_to_isl_structure (filter isalnum toks) tagged)) = Inl e
         \<longrightarrow> fst (ISLProcessor_translate nl w text)
               = Inr (PDict [(''success'', PBool False), (''error'', PStr (str_exn e))]))
   \<and> (\<exists>d. fst (ASLProcessor_translate w text) = Inr (PDict d))
   \<and> (\<forall>e w'. process_text_to_asl w text = (Inl e, w')
         \<longrightarrow> ASLProcessor_translate w text
               = (Inr (PDict [(''success'', PBool False), (''error'', PStr (str_exn e))]), w'))
   \<and> (\<forall>e. fst (generate_asl_video (w\<lparr>ticks := Suc (ticks w)\<rparr>)
                 (map str_upper (filter isalnum (str_split (str_lower text))))) = Inl e
         \<longrightarrow> fst (ASLProcessor_translate w text)
               = Inr (PDict [(''success'', PBool False), (''error'', PStr (str_exn e))]))"
proof (intro conjI allI impI)
  show "\<exists>d. fst (ISLProcessor_translate nl w text) = Inr (PDict d)"
    by (rule ISLProcessor_translate_Inr)
  show "\<exists>d. fst (ASLProcessor_translate w text) = Inr (PDict d)"
    by (rule ASLProcessor_translate_Inr)
next
  fix e w'
  assume "process_text_to_isl nl w text = (Inl e, w')"
  then show "ISLProcessor_translate nl w text
               = (Inr (PDict [(''success'', PBool False), (''error'', PStr (str_exn e))]), w')"
    by (simp add: ISLProcessor_translate_def)
next
  fix e
  assume "word_tokenize nl (str_lower text) = Inl e"
  then show "fst (ISLProcessor_translate nl w text)
               = Inr (PDict [(''success'', PBool False), (''error'', PStr (str_exn e))])"
    by (simp add: ISLProcessor_translate_def process_text_to_isl_def tokenize_text_def time_time_def)
next
  fix toks e
  assume "word_tokenize nl (str_lower text) = Inr toks \<and> pos_tag nl (filter isalnum toks) = Inl e"
  then show "fst (ISLProcessor_translate nl w text)
               = Inr (PDict [(''success'', PBool False), (''error'', PStr (str_exn e))])"
    by (simp add: ISLProcessor_translate_def process_text_to_isl_def tokenize_text_def
        ISLProcessor_pos_tag_def time_time_def)
next
  fix toks tagged e
  assume "word_tokenize nl (str_lower text) = Inr toks
           \<and> pos_tag nl (filter isalnum toks) = Inr tagged
           \<and> fst (generate_isl_video (w\<lparr>ticks := Suc (ticks w)\<rparr>)
                    (convert_to_isl_structure (filter isalnum toks) tagged)) = Inl e"
  then show "fst (ISLProcessor_translate nl w text)
               = Inr (PDict [(''success'', PBool False), (''error'', PStr (str_exn e))])"
    by (auto simp: ISLProcessor_translate_def process_text_to_isl_def tokenize_text_def
        ISLProcessor_pos_tag_def time_time_def Let_def split: prod.splits sum.splits)
next
  fix e w'
  assume "process_text_to_asl w text = (Inl e, w')"
  then show "ASLProcessor_translate w text
               = (Inr (PDict [(''success'', PBool False), (''error'', PStr (str_exn e))]), w')"
    by (simp add: ASLProcessor_translate_def)
next
  fix e
  assume "fst (generate_asl_video (w\<lparr>ticks := Suc (ticks w)\<rparr>)
                 (map str_upper (filter isalnum (str_split (str_lower text))))) = Inl e"
  then show "fst (ASLProcessor_translate w text)
               = Inr (PDict [(''success'', PBool False), (''error'', PStr (str_exn e))])"
    by (auto simp: ASLProcessor_translate_def process_text_to_asl_def time_time_def Let_def
        split: prod.splits sum.splits)
qed

text \<open>
  The theorem where the tokenizer model is missing, and where no file can be opened.
\<close>

theorem processors_catch_witness:
  "fst (ISLProcessor_translate missing_model_nltk world0 ''I eat rice'')
     = Inr (PDict [(''success'', PBool False), (''error'', PStr ''Resource punkt not found'')])
   \<and> fst (ASLProcessor_translate world_denied ''I eat rice'')
     = Inr (PDict [(''success'', PBool False), (''error'', PStr ''Permission denied'')])"
proof (intro conjI)
  have t: "word_tokenize missing_model_nltk (str_lower ''I eat rice'')
             = Inl (LookupError ''Resource punkt not found'')"
    by (simp add: missing_model_nltk_def)
  from processors_catch_every_exception [of missing_model_nltk world0 "''I eat rice''",
      THEN conjunct2, THEN conjunct2, THEN conjunct1, rule_format, OF t]
  show "fst (ISLProcessor_translate missing_model_nltk world0 ''I eat rice'')
     = Inr (PDict [(''success'', PBool False), (''error'', PStr ''Resource punkt not found'')])"
    by simp
next
  have g: "fst (generate_asl_video (world_denied\<lparr>ticks := Suc (ticks world_denied)\<rparr>)
                 (map str_upper (filter isalnum (str_split (str_lower ''I eat rice'')))))
             = Inl (OSError ''Permission denied'')"
    by (simp add: generate_asl_video_eq world_denied_def)
  from processors_catch_every_exception [of _ world_denied "''I eat rice''",
      THEN conjunct2, THEN conjunct2, THEN conjunct2, THEN conjunct2, THEN conjunct2,
      THEN conjunct2, THEN conjunct2, rule_format, OF g]
  show "fst (ASLProcessor_translate world_denied ''I eat rice'')
     = Inr (PDict [(''success'', PBool False), (''error'', PStr ''Permission denied'')])"
    by simp
qed

section \<open>Unsupported languages and the cache\<close>

lemma translate_unsupported:
  assumes "str_lower language \<noteq> ''isl''" and "str_lower language \<noteq> ''asl''"
  shows "SignLanguageTranslator_translate nl w text language = (Inl unsupported_language, w)"
  using assms by (simp add: SignLanguageTranslator_translate_def)

lemma cached_translation_hit:
  assumes "TranslationCache_get c w text language = (Inr v, w1)" and "truthy v"
  shows "cached_translation c f w text language = (Inr v, w1)"
  using assms by (simp add: cached_translation_def)

lemma cached_translation_raise:
  assumes "TranslationCache_get c w text language = (Inr v, w1)" and "\<not> truthy v"
    and "f w1 text language = (Inl e, w2)"
  shows "cached_translation c f w text language = (Inl e, w2)"
  using assms by (simp add: cached_translation_def)

lemma cached_translation_store:
  assumes "TranslationCache_get c w text language = (Inr v, w1)" and "\<not> truthy v"
    and "f w1 text language = (Inr r, w2)" and "py_get r ''success'' = Inr s" and "truthy s"
  shows "cached_translation c f w text language
           = (Inr r, snd (TranslationCache_set c w2 text language r))"
proof -
  obtain p where "cache_file c text language = Inr p"
    using TranslationCache_get_Inr_path [OF assms(1)] by blast
  then have "\<exists>w3. TranslationCache_set c w2 text language r = (Inr PNone, w3)"
    by (auto simp: TranslationCache_set_def Let_def split: prod.splits sum.splits)
  with assms show ?thesis
    by (auto simp: cached_translation_def)
qed

text \<open>
  C5, as the code has it: for a language that is neither \<^verbatim>\<open>isl\<close> nor \<^verbatim>\<open>asl\<close> once
  lower-cased, \<^verbatim>\<open>SignLanguageTranslator.translate\<close> raises \<^verbatim>\<open>ValueError\<close> and changes
  nothing. Behind \<^verbatim>\<open>cached_translation\<close> the cache is read first: when the lookup
  misses, the \<^verbatim>\<open>ValueError\<close> leaves the wrapper and no file has changed; when it
  hits, the stored result is returned.
\<close>

theorem unsupported_language_behind_cache:
  assumes "str_lower language \<noteq> ''isl''" and "str_lower language \<noteq> ''asl''"
  shows "SignLanguageTranslator_translate nl w text language = (Inl unsupported_language, w)
         \<and> (\<forall>v w1. TranslationCache_get c w text language = (Inr v, w1) \<and> \<not> truthy v
               \<longrightarrow> cached_translation c (SignLanguageTranslator_translate nl) w text language
                     = (Inl unsupported_language, w1)
                   \<and> files w1 = files w)
         \<and> (\<forall>v w1. TranslationCache_get c w text language = (Inr v, w1) \<and> truthy v
               \<longrightarrow> cached_translation c (SignLanguageTranslator_translate nl) w text language
                     = (Inr v, w1))"
proof (intro conjI allI impI)
  show "SignLanguageTranslator_translate nl w text language = (Inl unsupported_language, w)"
    by (rule translate_unsupported [OF assms])
next
  fix v w1
  assume g: "TranslationCache_get c w text language = (Inr v, w1) \<and> \<not> truthy v"
  then show "cached_translation c (SignLanguageTranslator_translate nl) w text language
               = (Inl unsupported_language, w1)"
    by (intro cached_translation_raise [where v = v and ?w1.0 = w1])
       (simp_all add: translate_unsupported [OF assms])
  from g show "files w1 = files w"
    using TranslationCache_get_files [of c w "text" language] by simp
next
  fix v w1
  assume "TranslationCache_get c w text language = (Inr v, w1) \<and> truthy v"
  then show "cached_translation c (SignLanguageTranslator_translate nl) w text language = (Inr v, w1)"
    by (simp add: cached_translation_hit)
qed

text \<open>The theorem at the language \<^verbatim>\<open>bsl\<close> in the fresh world.\<close>

theorem unsupported_language_witness:
  "SignLanguageTranslator_translate demo_nltk world0 ''hello'' ''bsl'' = (Inl unsupported_language, world0)
   \<and> cached_translation default_cache (SignLanguageTranslator_translate demo_nltk) world0 ''hello'' ''bsl''
       = (Inl unsupported_language, world0)"
proof -
  have l1: "str_lower ''bsl'' \<noteq> ''isl''" and l2: "str_lower ''bsl'' \<noteq> ''asl''"
    by (simp_all add: str_eval)
  obtain p where "cache_file default_cache ''hello'' ''bsl'' = Inr p"
    using cache_file_encodes [of default_cache "''hello''" "''bsl''"] by auto
  then have g: "TranslationCache_get default_cache world0 ''hello'' ''bsl'' = (Inr PNone, world0)
             \<and> \<not> truthy PNone"
    by (simp add: TranslationCache_get_missing [where p = p] world0_def)
  note th = unsupported_language_behind_cache [OF l1 l2, of demo_nltk world0 "''hello''" default_cache]
  from th [THEN conjunct1] th [THEN conjunct2, THEN conjunct1, rule_format, OF g]
  show ?thesis by simp
qed

text \<open>The first cached ASL call in the fresh world.\<close>

lemma asl_translate_world0:
  "SignLanguageTranslator_translate nl world0 ''a_b'' ''asl'' =
     (Inr (PDict [(''success'', PBool True), (''video_path'', PStr ''asl_1700000000.mp4''),
                  (''asl_gloss'', PStr ''''), (''processing_time'', PFloat 2)]),
      world0\<lparr>ticks := 3,
        files := [''static/videos/asl_1700000000.txt'' \<mapsto> Bytes ''ASL Signs: '']\<rparr>)"
proof -
  have l: "str_lower ''asl'' = ''asl''" "str_lower ''asl'' \<noteq> ''isl''"
    by (simp_all add: str_eval)
  have toks: "map str_upper (filter isalnum (str_split (str_lower ''a_b''))) = []"
    by (simp add: str_eval)
  have n: "str_int (py_int (clock world0 (Suc 0))) = ''1700000000''"
    by (simp add: world0_def py_int_def str_int_def digits_nat.simps digit_char_def char_of_def
        bit_Suc_0_iff)
  have c: "clock world0 (Suc (Suc 0)) - clock world0 0 = 2" "ticks world0 = 0" "denied world0 = {}"
    "files world0 = (\<lambda>p. None)"
    by (simp_all add: world0_def)
  show ?thesis
    by (simp add: SignLanguageTranslator_translate_def l ASLProcessor_translate_def
        process_text_to_asl_def time_time_def toks generate_asl_video_eq n c dict_get_def
        numeral_3_eq_3)
qed

lemma asl_cached_world0:
  "cached_translation default_cache (SignLanguageTranslator_translate nl) world0 ''a_b'' ''asl'' =
     (Inr (PDict [(''success'', PBool True), (''video_path'', PStr ''asl_1700000000.mp4''),
                  (''asl_gloss'', PStr ''''), (''processing_time'', PFloat 2)]),
      world0\<lparr>ticks := 4,
        files := [''static/videos/asl_1700000000.txt'' \<mapsto> Bytes ''ASL Signs: '',
                  ''cache/6a44bcb40ae964ba0f46bec3a12964c9.pkl'' \<mapsto>
                    Pickle (PDict [(''result'',
                        PDict [(''success'', PBool True), (''video_path'', PStr ''asl_1700000000.mp4''),
                               (''asl_gloss'', PStr ''''), (''processing_time'', PFloat 2)]),
                      (''timestamp'', PFloat 1700000002.5)])]\<rparr>)"
proof -
  let ?r = "PDict [(''success'', PBool True), (''video_path'', PStr ''asl_1700000000.mp4''),
                  (''asl_gloss'', PStr ''''), (''processing_time'', PFloat 2)]"
  let ?w2 = "world0\<lparr>ticks := 3,
        files := [''static/videos/asl_1700000000.txt'' \<mapsto> Bytes ''ASL Signs: '']\<rparr>"
  have g: "TranslationCache_get default_cache world0 ''a_b'' ''asl'' = (Inr PNone, world0)"
    by (simp add: TranslationCache_get_missing [OF cache_file_a_b_asl] world0_def)
  have "cached_translation default_cache (SignLanguageTranslator_translate nl) world0 ''a_b'' ''asl''
          = (Inr ?r, snd (TranslationCache_set default_cache ?w2 ''a_b'' ''asl'' ?r))"
    by (rule cached_translation_store
          [where f = "SignLanguageTranslator_translate nl" and s = "PBool True",
           OF g _ asl_translate_world0])
       (simp_all add: dict_get_def)
  moreover have "''cache/6a44bcb40ae964ba0f46bec3a12964c9.pkl'' \<notin> denied ?w2"
    by (simp add: world0_def)
  ultimately show ?thesis
    by (simp add: TranslationCache_set_written [OF cache_file_a_b_asl])
       (simp add: world0_def numeral_3_eq_3 eval_nat_numeral)
qed

text \<open>
  C5 as stated fails behind the cache: after the cached call for the text \<^verbatim>\<open>a_b\<close>
  and the language \<^verbatim>\<open>asl\<close>, the cached call for the text \<^verbatim>\<open>a\<close> and the unsupported
  language \<^verbatim>\<open>b_asl\<close> reads the cache, finds the entry under the shared key and
  returns it; no \<^verbatim>\<open>ValueError\<close> is raised.
\<close>

theorem unsupported_language_counterexample:
  "str_lower ''b_asl'' \<noteq> ''isl'' \<and> str_lower ''b_asl'' \<noteq> ''asl''
   \<and> fst (cached_translation default_cache (SignLanguageTranslator_translate demo_nltk)
            (snd (cached_translation default_cache (SignLanguageTranslator_translate demo_nltk)
                    world0 ''a_b'' ''asl''))
            ''a'' ''b_asl'')
       = Inr (PDict [(''success'', PBool True), (''video_path'', PStr ''asl_1700000000.mp4''),
                     (''asl_gloss'', PStr ''''), (''processing_time'', PFloat 2)])"
proof -
  let ?r = "PDict [(''success'', PBool True), (''video_path'', PStr ''asl_1700000000.mp4''),
                  (''asl_gloss'', PStr ''''), (''processing_time'', PFloat 2)]"
  let ?d = "PDict [(''result'', ?r), (''timestamp'', PFloat 1700000002.5)]"
  let ?w = "snd (cached_translation default_cache (SignLanguageTranslator_translate demo_nltk)
                    world0 ''a_b'' ''asl'')"
  have "cache_file default_cache ''a'' ''b_asl'' = cache_file default_cache ''a_b'' ''asl''"
    by (simp add: cache_file_def get_cache_key_def)
  then have f: "cache_file default_cache ''a'' ''b_asl''
                  = Inr ''cache/6a44bcb40ae964ba0f46bec3a12964c9.pkl''"
    by (simp add: cache_file_a_b_asl)
  have "TranslationCache_get default_cache ?w ''a'' ''b_asl'' = (Inr ?r, ?w\<lparr>ticks := Suc (ticks ?w)\<rparr>)"
  proof (rule TranslationCache_get_fresh [OF f])
    show "files ?w ''cache/6a44bcb40ae964ba0f46bec3a12964c9.pkl'' = Some (Pickle ?d)"
      by (simp add: asl_cached_world0)
    show "''cache/6a44bcb40ae964ba0f46bec3a12964c9.pkl'' \<notin> denied ?w"
      by (simp add: asl_cached_world0) (simp add: world0_def)
    show "py_getitem ?d ''timestamp'' = Inr (PFloat 1700000002.5)" by simp
    show "py_sub (clock ?w (ticks ?w)) (PFloat 1700000002.5) = Inr 1"
      by (simp add: asl_cached_world0 py_sub_def) (simp add: world0_def)
    show "(1::real) < 86400" by simp
    show "py_getitem ?d ''result'' = Inr ?r" by simp
  qed
  then have "cached_translation default_cache (SignLanguageTranslator_translate demo_nltk) ?w ''a'' ''b_asl''
               = (Inr ?r, ?w\<lparr>ticks := Suc (ticks ?w)\<rparr>)"
    by (rule cached_translation_hit) simp
  moreover have "str_lower ''b_asl'' \<noteq> ''isl''" "str_lower ''b_asl'' \<noteq> ''asl''"
    by (simp_all add: str_eval)
  ultimately show ?thesis by simp
qed

section \<open>Only successful results are cached\<close>

lemma generate_isl_video_pickles:
  "files (snd (generate_isl_video w toks)) p = Some (Pickle v) \<Longrightarrow> files w p = Some (Pickle v)"
  by (simp add: generate_isl_video_eq split: if_splits)

lemma generate_asl_video_pickles:
  "files (snd (generate_asl_video w toks)) p = Some (Pickle v) \<Longrightarrow> files w p = Some (Pickle v)"
  by (simp add: generate_asl_video_eq split: if_splits)

lemma process_text_to_isl_pickles:
  assumes "files (snd (process_text_to_isl nl w text)) p = Some (Pickle v)"
  shows "files w p = Some (Pickle v)"
proof -
  have "generate_isl_video (w\<lparr>ticks := Suc (ticks w)\<rparr>) toks = (r, w2)
          \<Longrightarrow> files w2 p = Some (Pickle v) \<Longrightarrow> files w p = Some (Pickle v)" for toks r w2
    using generate_isl_video_pickles [of "w\<lparr>ticks := Suc (ticks w)\<rparr>" toks p v] by simp
  with assms show ?thesis
    by (auto simp: process_text_to_isl_def time_time_def Let_def split: prod.splits sum.splits)
qed

lemma process_text_to_asl_pickles:
  assumes "files (snd (process_text_to_asl w text)) p = Some (Pickle v)"
  shows "files w p = Some (Pickle v)"
proof -
  have "generate_asl_video (w\<lparr>ticks := Suc (ticks w)\<rparr>) toks = (r, w2)
          \<Longrightarrow> files w2 p = Some (Pickle v) \<Longrightarrow> files w p = Some (Pickle v)" for toks r w2
    using generate_asl_video_pickles [of "w\<lparr>ticks := Suc (ticks w)\<rparr>" toks p v] by simp
  with assms show ?thesis
    by (auto simp: process_text_to_asl_def time_time_def Let_def split: prod.splits sum.splits)
qed

lemma translate_pickles:
  assumes "files (snd (SignLanguageTranslator_translate nl w text language)) p = Some (Pickle v)"
  shows "files w p = Some (Pickle v)"
proof -
  have "files (snd (ISLProcessor_translate nl w text)) p = Some (Pickle v) \<Longrightarrow> files w p = Some (Pickle v)"
    using process_text_to_isl_pickles [of nl w "text" p v]
    by (auto simp: ISLProcessor_translate_def split: prod.splits sum.splits)
  moreover
  have "files (snd (ASLProcessor_translate w text)) p = Some (Pickle v) \<Longrightarrow> files w p = Some (Pickle v)"
    using process_text_to_asl_pickles [of w "text" p v]
    by (auto simp: ASLProcessor_translate_def split: prod.splits sum.splits)
  ultimately show ?thesis
    using assms by (auto simp: SignLanguageTranslator_translate_def split: if_splits)
qed

lemma translate_success:
  assumes "fst (SignLanguageTranslator_translate nl w text language) = Inr r"
  shows "py_get r ''success'' = Inr (PBool True) \<or> py_get r ''success'' = Inr (PBool False)"
  using assms
  by (auto simp: SignLanguageTranslator_translate_def ISLProcessor_translate_def
      ASLProcessor_translate_def unsupported_language_def dict_get_def
      split: if_splits prod.splits sum.splits)

text \<open>
  C6: whatever pickled entry a call of the cached translator leaves in a file that
  did not hold it before is a cache entry of this call, stored in the cache file of
  its text and language, and the result inside is the one the call returned and has
  \<^verbatim>\<open>success\<close> equal to \<^verbatim>\<open>True\<close>.
\<close>

theorem only_successful_results_cached:
  assumes "cached_translation c (SignLanguageTranslator_translate nl) w text language = (res, w')"
    and "files w' p = Some (Pickle v)"
    and "files w p \<noteq> Some (Pickle v)"
  shows "\<exists>r ts. v = PDict [(''result'', r), (''timestamp'', PFloat ts)]
           \<and> py_get r ''success'' = Inr (PBool True)
           \<and> res = Inr r
           \<and> cache_file c text language = Inr p"
proof (cases "cache_file c text language")
  case (Inl e)
  then have "cached_translation c (SignLanguageTranslator_translate nl) w text language = (Inl e, w)"
    by (simp add: cached_translation_def TranslationCache_get_raises)
  with assms show ?thesis by simp
next
  case path: (Inr p0)
  obtain v0 w1 where g: "TranslationCache_get c w text language = (Inr v0, w1)"
    using TranslationCache_get_Inr [OF path, of w]
    by (cases "TranslationCache_get c w text language") auto
  have w1: "files w1 = files w"
    using TranslationCache_get_files [of c w "text" language] by (simp add: g)
  show ?thesis
  proof (cases "truthy v0")
    case True
    with g assms(1) have "w' = w1" by (simp add: cached_translation_def)
    with w1 assms(2,3) show ?thesis by simp
  next
    case miss: False
    obtain r0 w2 where f: "SignLanguageTranslator_translate nl w1 text language = (r0, w2)"
      by (cases "SignLanguageTranslator_translate nl w1 text language")
    have w2: "files w2 p \<noteq> Some (Pickle v)"
      using translate_pickles [of nl w1 "text" language p v] w1 assms(3) by (auto simp: f)
    show ?thesis
    proof (cases r0)
      case (Inl e)
      with g miss f assms(1) have "w' = w2" by (simp add: cached_translation_def)
      with w2 assms(2) show ?thesis by simp
    next
      case (Inr r)
      have s: "py_get r ''success'' = Inr (PBool True) \<or> py_get r ''success'' = Inr (PBool False)"
        using translate_success [of nl w1 "text" language r] by (simp add: f Inr)
      show ?thesis
      proof (cases "py_get r ''success'' = Inr (PBool True)")
        case False
        with s have "py_get r ''success'' = Inr (PBool False)" by simp
        with g miss f Inr assms(1) have "w' = w2" by (simp add: cached_translation_def)
        with w2 assms(2) show ?thesis by simp
      next
        case True
        have st: "cached_translation c (SignLanguageTranslator_translate nl) w text language
                = (Inr r, snd (TranslationCache_set c w2 text language r))"
          by (rule cached_translation_store
                [where f = "SignLanguageTranslator_translate nl" and s = "PBool True", OF g miss])
             (simp_all add: f Inr True)
        with assms(1) have res: "res = Inr r"
          and w': "w' = snd (TranslationCache_set c w2 text language r)" by simp_all
        show ?thesis
        proof (cases "p0 \<in> denied w2")
          case d: True
          have "files w' = files w2" by (simp add: w' TranslationCache_set_denied [OF path d])
          with w2 assms(2) show ?thesis by simp
        next
          case d: False
          have fw: "files w' = (files w2)(p0 \<mapsto>
              Pickle (PDict [(''result'', r), (''timestamp'', PFloat (clock w2 (ticks w2)))]))"
            by (simp add: w' TranslationCache_set_written [OF path d])
          show ?thesis
          proof (cases "p = p0")
            case False
            with fw w2 assms(2) show ?thesis by simp
          next
            case True
            with fw assms(2) have "v = PDict [(''result'', r), (''timestamp'', PFloat (clock w2 (ticks w2)))]"
              by simp
            with \<open>py_get r ''success'' = Inr (PBool True)\<close> res True path show ?thesis by blast
          qed
        qed
      qed
    qed
  qed
qed

text \<open>The theorem at the first cached ASL call in the fresh world.\<close>

theorem only_successful_results_cached_witness:
  "files (snd (cached_translation default_cache (SignLanguageTranslator_translate demo_nltk)
                 world0 ''a_b'' ''asl''))
       ''cache/6a44bcb40ae964ba0f46bec3a12964c9.pkl''
     = Some (Pickle (PDict [(''result'',
                        PDict [(''success'', PBool True), (''video_path'', PStr ''asl_1700000000.mp4''),
                               (''asl_gloss'', PStr ''''), (''processing_time'', PFloat 2)]),
                      (''timestamp'', PFloat 1700000002.5)]))
   \<and> (\<exists>r ts. PDict [(''result'',
                        PDict [(''success'', PBool True), (''video_path'', PStr ''asl_1700000000.mp4''),
                               (''asl_gloss'', PStr ''''), (''processing_time'', PFloat 2)]),
                      (''timestamp'', PFloat 1700000002.5)]
               = PDict [(''result'', r), (''timestamp'', PFloat ts)]
             \<and> py_get r ''success'' = Inr (PBool True)
             \<and> fst (cached_translation default_cache (SignLanguageTranslator_translate demo_nltk)
                      world0 ''a_b'' ''asl'') = Inr r)"
proof -
  let ?call = "cached_translation default_cache (SignLanguageTranslator_translate demo_nltk)
                 world0 ''a_b'' ''asl''"
  let ?v = "PDict [(''result'',
                        PDict [(''success'', PBool True), (''video_path'', PStr ''asl_1700000000.mp4''),
                               (''asl_gloss'', PStr ''''), (''processing_time'', PFloat 2)]),
                      (''timestamp'', PFloat 1700000002.5)]"
  have a: "?call = (fst ?call, snd ?call)" by simp
  have b: "files (snd ?call) ''cache/6a44bcb40ae964ba0f46bec3a12964c9.pkl'' = Some (Pickle ?v)"
    by (simp add: asl_cached_world0)
  have c: "files world0 ''cache/6a44bcb40ae964ba0f46bec3a12964c9.pkl'' \<noteq> Some (Pickle ?v)"
    by (simp add: world0_def)
  from only_successful_results_cached [OF a b c] b show ?thesis by blast
qed

end
